theory Spec2Isabelle
  imports Complex_Main "HOL-Library.Word"
begin

unbundle bit_operations_syntax

section \<open>Floating-point values\<close>

text \<open>
  The rasterizer computes with Go's \<open>float32\<close> and \<open>float64\<close>. A value of either type is
  a NaN, an infinity, the negative zero or a finite number (\<open>Fin 0\<close> is the positive
  zero). Comparisons are the IEEE-754 ones and are defined here; they are exact, so
  they do not depend on the rounding. Every rounded operation (addition, division,
  the conversions, the functions of package \<open>math\<close>) is a field of the record
  \<open>farith\<close>, which the operations of the rasterizer take as their first argument: the
  theorems hold for every arithmetic, the IEEE-754 one of the Go runtime included.
  (Go lets a compiler fuse \<open>x*y + z\<close> into one rounding; the model rounds each
  operation, and no theorem below depends on which of the two is done.)
\<close>

datatype fl = NaN | NInf | PInf | NZero | Fin real

fun fkey :: "fl \<Rightarrow> (int \<times> real) option" where
  "fkey NaN = None"
| "fkey NInf = Some (- 1, 0)"
| "fkey PInf = Some (1, 0)"
| "fkey NZero = Some (0, 0)"
| "fkey (Fin v) = Some (0, v)"

definition fle :: "fl \<Rightarrow> fl \<Rightarrow> bool" where
  \<comment> \<open>Go's \<open>a <= b\<close> on floats: false when either side is a NaN.\<close>
  "fle a b = (case (fkey a, fkey b) of
      (Some (i, x), Some (j, y)) \<Rightarrow> i < j \<or> (i = j \<and> x \<le> y)
    | _ \<Rightarrow> False)"

definition flt :: "fl \<Rightarrow> fl \<Rightarrow> bool" where
  \<comment> \<open>Go's \<open>a < b\<close> on floats: false when either side is a NaN.\<close>
  "flt a b = (case (fkey a, fkey b) of
      (Some (i, x), Some (j, y)) \<Rightarrow> i < j \<or> (i = j \<and> x < y)
    | _ \<Rightarrow> False)"

fun fneg :: "fl \<Rightarrow> fl" where
  \<comment> \<open>unary minus: exact, it flips the sign\<close>
  "fneg NaN = NaN"
| "fneg NInf = PInf"
| "fneg PInf = NInf"
| "fneg NZero = Fin 0"
| "fneg (Fin v) = (if v = 0 then NZero else Fin (- v))"

fun fabs :: "fl \<Rightarrow> fl" where
  \<comment> \<open>\<open>math.Abs\<close>: exact, it clears the sign\<close>
  "fabs NaN = NaN"
| "fabs NInf = PInf"
| "fabs PInf = PInf"
| "fabs NZero = Fin 0"
| "fabs (Fin v) = Fin \<bar>v\<bar>"

record farith =
  add32 :: "fl \<Rightarrow> fl \<Rightarrow> fl"
  sub32 :: "fl \<Rightarrow> fl \<Rightarrow> fl"
  mul32 :: "fl \<Rightarrow> fl \<Rightarrow> fl"
  div32 :: "fl \<Rightarrow> fl \<Rightarrow> fl"
  add64 :: "fl \<Rightarrow> fl \<Rightarrow> fl"
  sub64 :: "fl \<Rightarrow> fl \<Rightarrow> fl"
  mul64 :: "fl \<Rightarrow> fl \<Rightarrow> fl"
  div64 :: "fl \<Rightarrow> fl \<Rightarrow> fl"
  int_to32 :: "int \<Rightarrow> real"  \<comment> \<open>\<open>float32(i)\<close> of an \<open>int\<close> of value \<open>i\<close>: always finite\<close>
  int_to64 :: "int \<Rightarrow> real"  \<comment> \<open>\<open>float64(i)\<close> of an \<open>int\<close>: always finite\<close>
  f64_to32 :: "fl \<Rightarrow> fl"     \<comment> \<open>\<open>float32(x)\<close> of a \<open>float64\<close>\<close>
  f64_to_int :: "fl \<Rightarrow> int"  \<comment> \<open>\<open>int(x)\<close> of a \<open>float64\<close>\<close>
  sqrt64 :: "fl \<Rightarrow> fl"
  sin64 :: "fl \<Rightarrow> fl"
  cos64 :: "fl \<Rightarrow> fl"
  acos64 :: "fl \<Rightarrow> fl"
  ceil64 :: "fl \<Rightarrow> fl"
  pi64 :: fl                 \<comment> \<open>the constant \<open>math.Pi\<close>\<close>
  two_pi64 :: fl             \<comment> \<open>the constant \<open>2 * math.Pi\<close>\<close>
  half_pi_eps64 :: fl        \<comment> \<open>the constant \<open>math.Pi/2 + 0.001\<close>\<close>

text \<open>
  The widening \<open>float64(x)\<close> of a \<open>float32\<close> is exact, so it is the identity on \<open>fl\<close>
  and is not written in the model.
\<close>

text \<open>
  Modelled from the spec: the constants \<open>positiveInfinity\<close> and \<open>negativeInfinity\<close> are
  declared outside the given source; the spec gives them as \<open>+\<infinity>\<close> (the default upper
  LOD bound) and \<open>-\<infinity>\<close> (what the first stop offset is compared against).
\<close>

definition positiveInfinity :: fl where
  "positiveInfinity = PInf"

definition negativeInfinity :: fl where
  "negativeInfinity = NInf"

type_synonym vec2 = "fl \<times> fl"

definition vec2_zero :: vec2 where
  \<comment> \<open>\<open>f32.Vec2{}\<close>\<close>
  "vec2_zero = (Fin 0, Fin 0)"


section \<open>Colors, rectangles, metadata\<close>

record RGBA =
  rgbaR :: "8 word"
  rgbaG :: "8 word"
  rgbaB :: "8 word"
  rgbaA :: "8 word"

record RGBA64 =
  rgba64R :: "16 word"
  rgba64G :: "16 word"
  rgba64B :: "16 word"
  rgba64A :: "16 word"

text \<open>
  Modelled from the spec: \<open>validAlphaPremulColor\<close> is declared outside the given source;
  the spec says a color is valid premultiplied when all channels are \<open>\<le>\<close> alpha.
\<close>

definition validAlphaPremulColor :: "RGBA \<Rightarrow> bool" where
  "validAlphaPremulColor c = (rgbaR c \<le> rgbaA c \<and> rgbaG c \<le> rgbaA c \<and> rgbaB c \<le> rgbaA c)"

text \<open>
  Go's \<open>int\<close> is a machine integer: 64 bits in two's complement on the platforms the
  package is built for, so \<open>+\<close> and \<open>-\<close> wrap around and comparisons read the sign
  (\<open>sint\<close>). \<open>image.Point\<close> is a pair of \<open>int\<close>s; \<open>image.Rectangle\<close> has a \<open>Min\<close> and a
  \<open>Max\<close> point.
\<close>

type_synonym goint = "64 word"

record Rectangle =
  rMin :: "goint \<times> goint"
  rMax :: "goint \<times> goint"

definition rect_zero :: Rectangle where
  \<comment> \<open>\<open>image.Rectangle{}\<close>\<close>
  "rect_zero = \<lparr>rMin = (0, 0), rMax = (0, 0)\<rparr>"

definition Empty :: "Rectangle \<Rightarrow> bool" where
  "Empty q = (sint (fst (rMin q)) \<ge> sint (fst (rMax q)) \<or>
              sint (snd (rMin q)) \<ge> sint (snd (rMax q)))"

definition Dx :: "Rectangle \<Rightarrow> goint" where
  \<comment> \<open>the subtraction of two \<open>int\<close>s: it wraps\<close>
  "Dx q = fst (rMax q) - fst (rMin q)"

definition Dy :: "Rectangle \<Rightarrow> goint" where
  \<comment> \<open>the subtraction of two \<open>int\<close>s: it wraps\<close>
  "Dy q = snd (rMax q) - snd (rMin q)"

record ViewBoxRect =
  vbMin :: vec2
  vbMax :: vec2

text \<open>A \<open>[64]T\<close> array is a function of the index; every index the code uses is masked to 6 bits.\<close>

record Metadata =
  ViewBox :: ViewBoxRect
  Palette :: "nat \<Rightarrow> RGBA"

datatype Op = Over | Src

record Stop =
  Offset :: fl
  StopRGBA64 :: RGBA64


section \<open>The collaborators: gradient and coverage rasterizer\<close>

text \<open>
  The gradient (package \<open>gradient\<close>) and the coverage rasterizer (\<open>vector.Rasterizer\<close>)
  are outside the repository. The gradient is modelled by the arguments of its last
  initialisation. The coverage rasterizer is modelled by the calls it has received, in
  order, with the pen its \<open>Pen\<close> method returns: the last argument of the most recent
  \<open>MoveTo\<close>, \<open>LineTo\<close>, \<open>QuadTo\<close> or \<open>CubeTo\<close>; \<open>ClosePath\<close> returns the pen to the start
  of the subpath and \<open>Reset\<close> to the origin. The assignment to its field \<open>DrawOp\<close> is
  a call of its own, \<open>ZSetDrawOp\<close>.
\<close>

datatype Gradient =
    GradientZero
  | InitLinear fl fl fl fl "8 word" "Stop list"
  | InitCircular fl fl fl "8 word" "Stop list"

datatype Paint = PaintNil | PaintUniform RGBA | PaintGradient Gradient

datatype 'img zcall =
    ZReset goint goint
  | ZSetDrawOp Op
  | ZMoveTo vec2
  | ZLineTo vec2
  | ZQuadTo vec2 vec2
  | ZCubeTo vec2 vec2 vec2
  | ZClosePath
  | ZDraw 'img Rectangle Paint "goint \<times> goint"

record 'img VecRasterizer =
  zfirst :: vec2
  zpen :: vec2
  zcalls :: "'img zcall list"

definition vec_zero :: "'img VecRasterizer" where
  "vec_zero = \<lparr>zfirst = vec2_zero, zpen = vec2_zero, zcalls = []\<rparr>"

definition zReset :: "goint \<Rightarrow> goint \<Rightarrow> 'img VecRasterizer \<Rightarrow> 'img VecRasterizer" where
  "zReset w h v = v\<lparr>zfirst := vec2_zero, zpen := vec2_zero, zcalls := zcalls v @ [ZReset w h]\<rparr>"

definition zSetDrawOp :: "Op \<Rightarrow> 'img VecRasterizer \<Rightarrow> 'img VecRasterizer" where
  "zSetDrawOp d v = v\<lparr>zcalls := zcalls v @ [ZSetDrawOp d]\<rparr>"

definition zMoveTo :: "vec2 \<Rightarrow> 'img VecRasterizer \<Rightarrow> 'img VecRasterizer" where
  "zMoveTo p v = v\<lparr>zfirst := p, zpen := p, zcalls := zcalls v @ [ZMoveTo p]\<rparr>"

definition zLineTo :: "vec2 \<Rightarrow> 'img VecRasterizer \<Rightarrow> 'img VecRasterizer" where
  "zLineTo p v = v\<lparr>zpen := p, zcalls := zcalls v @ [ZLineTo p]\<rparr>"

definition zQuadTo :: "vec2 \<Rightarrow> vec2 \<Rightarrow> 'img VecRasterizer \<Rightarrow> 'img VecRasterizer" where
  "zQuadTo c p v = v\<lparr>zpen := p, zcalls := zcalls v @ [ZQuadTo c p]\<rparr>"

definition zCubeTo :: "vec2 \<Rightarrow> vec2 \<Rightarrow> vec2 \<Rightarrow> 'img VecRasterizer \<Rightarrow> 'img VecRasterizer" where
  "zCubeTo c1 c2 p v = v\<lparr>zpen := p, zcalls := zcalls v @ [ZCubeTo c1 c2 p]\<rparr>"

definition zClosePath :: "'img VecRasterizer \<Rightarrow> 'img VecRasterizer" where
  "zClosePath v = v\<lparr>zpen := zfirst v, zcalls := zcalls v @ [ZClosePath]\<rparr>"

definition zDraw ::
  "'img \<Rightarrow> Rectangle \<Rightarrow> Paint \<Rightarrow> goint \<times> goint \<Rightarrow> 'img VecRasterizer
     \<Rightarrow> 'img VecRasterizer" where
  "zDraw d q p sp v = v\<lparr>zcalls := zcalls v @ [ZDraw d q p sp]\<rparr>"


section \<open>The rasterizer\<close>

datatype smoothType = smoothTypeNone | smoothTypeQuad | smoothTypeCube

text \<open>
  The field \<open>fill\<close> is an \<open>image.Image\<close> that is nil or points at the rasterizer's own
  \<open>flatImage\<close> or \<open>gradient\<close>; \<open>flatImage.C\<close> is nil or points at the rasterizer's own
  \<open>flatColor\<close>.
\<close>

datatype fillRef = FillNil | FillFlatImage | FillGradient

record 'img Rasterizer =
  zz :: "'img VecRasterizer"        \<comment> \<open>the field \<open>z\<close>\<close>
  dst :: "'img option"              \<comment> \<open>\<open>None\<close> is the nil image\<close>
  rect :: Rectangle                 \<comment> \<open>the field \<open>r\<close>\<close>
  drawOp :: Op
  scaleX :: fl
  biasX :: fl
  scaleY :: fl
  biasY :: fl
  metadata :: Metadata
  lod0 :: fl
  lod1 :: fl
  cSel :: "8 word"
  nSel :: "8 word"
  disabled :: bool
  firstStartPath :: bool
  prevSmoothType :: smoothType
  prevSmoothPoint :: vec2
  fill :: fillRef
  flatColor :: RGBA
  flatImageC :: bool                \<comment> \<open>whether \<open>flatImage.C\<close> points at \<open>flatColor\<close>\<close>
  gradient :: Gradient
  cReg :: "nat \<Rightarrow> RGBA"
  nReg :: "nat \<Rightarrow> fl"
  stops :: "nat \<Rightarrow> Stop"

definition rgba_zero :: RGBA where
  "rgba_zero = \<lparr>rgbaR = 0, rgbaG = 0, rgbaB = 0, rgbaA = 0\<rparr>"

definition stop_zero :: Stop where
  "stop_zero = \<lparr>Offset = Fin 0,
     StopRGBA64 = \<lparr>rgba64R = 0, rgba64G = 0, rgba64B = 0, rgba64A = 0\<rparr>\<rparr>"

definition metadata_zero :: Metadata where
  "metadata_zero = \<lparr>ViewBox = \<lparr>vbMin = vec2_zero, vbMax = vec2_zero\<rparr>,
     Palette = (\<lambda>_. rgba_zero)\<rparr>"

definition rasterizer_zero :: "'img Rasterizer" where
  \<comment> \<open>the zero value of the struct\<close>
  "rasterizer_zero = \<lparr>zz = vec_zero, dst = None, rect = rect_zero, drawOp = Over,
     scaleX = Fin 0, biasX = Fin 0, scaleY = Fin 0, biasY = Fin 0,
     metadata = metadata_zero, lod0 = Fin 0, lod1 = Fin 0, cSel = 0, nSel = 0,
     disabled = False, firstStartPath = False, prevSmoothType = smoothTypeNone,
     prevSmoothPoint = vec2_zero, fill = FillNil, flatColor = rgba_zero,
     flatImageC = False, gradient = GradientZero, cReg = (\<lambda>_. rgba_zero),
     nReg = (\<lambda>_. Fin 0), stops = (\<lambda>_. stop_zero)\<rparr>"

definition recalcTransform :: "farith \<Rightarrow> 'img Rasterizer \<Rightarrow> 'img Rasterizer" where
  "recalcTransform F s = s
     \<lparr>scaleX := div32 F (Fin (int_to32 F (sint (Dx (rect s)))))
         (sub32 F (fst (vbMax (ViewBox (metadata s)))) (fst (vbMin (ViewBox (metadata s))))),
      biasX := fneg (fst (vbMin (ViewBox (metadata s)))),
      scaleY := div32 F (Fin (int_to32 F (sint (Dy (rect s)))))
         (sub32 F (snd (vbMax (ViewBox (metadata s)))) (snd (vbMin (ViewBox (metadata s))))),
      biasY := fneg (snd (vbMin (ViewBox (metadata s))))\<rparr>"

definition SetDstImage ::
  "farith \<Rightarrow> 'img option \<Rightarrow> Rectangle \<Rightarrow> Op \<Rightarrow> 'img Rasterizer \<Rightarrow> 'img Rasterizer" where
  "SetDstImage F d q dop s =
     recalcTransform F
       (s\<lparr>dst := d, rect := (if Empty q then rect_zero else q), drawOp := dop\<rparr>)"

definition Reset :: "farith \<Rightarrow> Metadata \<Rightarrow> 'img Rasterizer \<Rightarrow> 'img Rasterizer" where
  "Reset F m s =
     recalcTransform F
       (s\<lparr>metadata := m, lod0 := Fin 0, lod1 := positiveInfinity, cSel := 0, nSel := 0,
          firstStartPath := True, prevSmoothType := smoothTypeNone,
          prevSmoothPoint := vec2_zero, cReg := Palette m, nReg := (\<lambda>_. Fin 0)\<rparr>)"

definition SetCSel :: "8 word \<Rightarrow> 'img Rasterizer \<Rightarrow> 'img Rasterizer" where
  "SetCSel v s = s\<lparr>cSel := v AND 0x3f\<rparr>"

definition SetNSel :: "8 word \<Rightarrow> 'img Rasterizer \<Rightarrow> 'img Rasterizer" where
  "SetNSel v s = s\<lparr>nSel := v AND 0x3f\<rparr>"

text \<open>
  The type \<open>Color\<close> and its method \<open>Resolve\<close> are declared outside the given source:
  \<open>SetCReg\<close> takes the method as the argument \<open>resolve\<close>, applied to the color, the
  palette and the color registers as they are before the store.
\<close>

definition SetCReg ::
  "('c \<Rightarrow> (nat \<Rightarrow> RGBA) \<Rightarrow> (nat \<Rightarrow> RGBA) \<Rightarrow> RGBA) \<Rightarrow> 8 word \<Rightarrow> bool \<Rightarrow> 'c
     \<Rightarrow> 'img Rasterizer \<Rightarrow> 'img Rasterizer" where
  "SetCReg resolve adj incr c s =
     (let s1 = s\<lparr>cReg := (cReg s)
                 (unat ((cSel s - adj) AND 0x3f) := resolve c (Palette (metadata s)) (cReg s))\<rparr>
      in if incr then s1\<lparr>cSel := cSel s1 + 1\<rparr> else s1)"

definition SetNReg :: "8 word \<Rightarrow> bool \<Rightarrow> fl \<Rightarrow> 'img Rasterizer \<Rightarrow> 'img Rasterizer" where
  "SetNReg adj incr f s =
     (let s1 = s\<lparr>nReg := (nReg s) (unat ((nSel s - adj) AND 0x3f) := f)\<rparr>
      in if incr then s1\<lparr>nSel := nSel s1 + 1\<rparr> else s1)"

definition SetLOD :: "fl \<Rightarrow> fl \<Rightarrow> 'img Rasterizer \<Rightarrow> 'img Rasterizer" where
  "SetLOD l0 l1 s = s\<lparr>lod0 := l0, lod1 := l1\<rparr>"

definition unabsX :: "farith \<Rightarrow> 'img Rasterizer \<Rightarrow> fl \<Rightarrow> fl" where
  "unabsX F s x = sub32 F (div32 F x (scaleX s)) (biasX s)"

definition unabsY :: "farith \<Rightarrow> 'img Rasterizer \<Rightarrow> fl \<Rightarrow> fl" where
  "unabsY F s y = sub32 F (div32 F y (scaleY s)) (biasY s)"

definition absX :: "farith \<Rightarrow> 'img Rasterizer \<Rightarrow> fl \<Rightarrow> fl" where
  "absX F s x = mul32 F (scaleX s) (add32 F x (biasX s))"

definition absY :: "farith \<Rightarrow> 'img Rasterizer \<Rightarrow> fl \<Rightarrow> fl" where
  "absY F s y = mul32 F (scaleY s) (add32 F y (biasY s))"

definition relX :: "farith \<Rightarrow> 'img Rasterizer \<Rightarrow> fl \<Rightarrow> fl" where
  "relX F s x = mul32 F (scaleX s) x"

definition relY :: "farith \<Rightarrow> 'img Rasterizer \<Rightarrow> fl \<Rightarrow> fl" where
  "relY F s y = mul32 F (scaleY s) y"

definition absVec2 :: "farith \<Rightarrow> 'img Rasterizer \<Rightarrow> fl \<Rightarrow> fl \<Rightarrow> vec2" where
  "absVec2 F s x y = (absX F s x, absY F s y)"

definition relVec2 :: "farith \<Rightarrow> 'img Rasterizer \<Rightarrow> fl \<Rightarrow> fl \<Rightarrow> vec2" where
  "relVec2 F s x y =
     (let pen = zpen (zz s) in (add32 F (fst pen) (relX F s x), add32 F (snd pen) (relY F s y)))"

definition implicitSmoothPoint :: "farith \<Rightarrow> 'img Rasterizer \<Rightarrow> smoothType \<Rightarrow> vec2" where
  "implicitSmoothPoint F s thisSmoothType =
     (let pen = zpen (zz s) in
      if prevSmoothType s \<noteq> thisSmoothType then pen
      else (sub32 F (mul32 F (Fin 2) (fst pen)) (fst (prevSmoothPoint s)),
            sub32 F (mul32 F (Fin 2) (snd pen)) (snd (prevSmoothPoint s))))"


subsection \<open>Paint resolution and StartPath\<close>

text \<open>
  The loop of \<open>initGradient\<close>: \<open>i\<close> runs from its start value up to \<open>nStops\<close>; the result
  is whether every stop passed, with the array \<open>stops\<close> as the loop left it.
\<close>

function initGradient_loop ::
  "(nat \<Rightarrow> RGBA) \<Rightarrow> (nat \<Rightarrow> fl) \<Rightarrow> int \<Rightarrow> int \<Rightarrow> int \<Rightarrow> int \<Rightarrow> fl \<Rightarrow> (nat \<Rightarrow> Stop)
     \<Rightarrow> bool \<times> (nat \<Rightarrow> Stop)" where
  "initGradient_loop cr nr cBase nBase nStops i prevN st =
     (if i < nStops then
        (let c = cr (nat ((cBase + i) AND 0x3f)) in
         if \<not> validAlphaPremulColor c then (False, st)
         else
           (let n = nr (nat ((nBase + i) AND 0x3f)) in
            if \<not> (fle (Fin 0) n \<and> fle n (Fin 1)) \<or> \<not> flt prevN n then (False, st)
            else initGradient_loop cr nr cBase nBase nStops (i + 1) n
                   (st(nat i := \<lparr>Offset = n,
                        StopRGBA64 = \<lparr>rgba64R = ucast (rgbaR c) * 0x101,
                                       rgba64G = ucast (rgbaG c) * 0x101,
                                       rgba64B = ucast (rgbaB c) * 0x101,
                                       rgba64A = ucast (rgbaA c) * 0x101\<rparr>\<rparr>))))
      else (True, st))"
  by pat_completeness auto
termination
  by (relation "measure (\<lambda>(cr, nr, cBase, nBase, nStops, i, prevN, st). nat (nStops - i))") auto

declare initGradient_loop.simps [simp del]

definition initGradient :: "farith \<Rightarrow> RGBA \<Rightarrow> 'img Rasterizer \<Rightarrow> bool \<times> 'img Rasterizer" where
  "initGradient F rgba s =
     (let nStops = uint (rgbaR rgba AND 0x3f);
          cBase = uint (rgbaG rgba AND 0x3f);
          nBase = uint (rgbaB rgba AND 0x3f);
          res = initGradient_loop (cReg s) (nReg s) cBase nBase nStops 0 negativeInfinity (stops s);
          s1 = s\<lparr>stops := snd res\<rparr>
      in if \<not> fst res then (False, s1)
         else if (drop_bit 6 (rgbaB rgba)) AND 0x01 = 0 then
           (True, s1\<lparr>gradient := InitLinear
              (absX F s1 (nReg s1 (nat ((nBase - 4) AND 0x3f))))
              (absY F s1 (nReg s1 (nat ((nBase - 3) AND 0x3f))))
              (absX F s1 (nReg s1 (nat ((nBase - 2) AND 0x3f))))
              (absY F s1 (nReg s1 (nat ((nBase - 1) AND 0x3f))))
              (drop_bit 6 (rgbaG rgba))
              (map (stops s1) [0..<nat nStops])\<rparr>)
         else
           (let r = relX F s1 (nReg s1 (nat ((nBase - 1) AND 0x3f))) in
            (True, s1\<lparr>gradient := InitCircular
              (absX F s1 (nReg s1 (nat ((nBase - 4) AND 0x3f))))
              (absY F s1 (nReg s1 (nat ((nBase - 3) AND 0x3f))))
              r
              (drop_bit 6 (rgbaG rgba))
              (map (stops s1) [0..<nat nStops])\<rparr>)))"

text \<open>
  The first half of \<open>StartPath\<close>: the color register is copied to \<open>flatColor\<close> and the
  paint is resolved. The chain has no final \<open>else\<close>.
\<close>

definition resolvePaint :: "farith \<Rightarrow> 8 word \<Rightarrow> 'img Rasterizer \<Rightarrow> 'img Rasterizer" where
  "resolvePaint F adj s =
     (let s1 = s\<lparr>flatColor := cReg s (unat ((cSel s - adj) AND 0x3f))\<rparr> in
      if validAlphaPremulColor (flatColor s1) then
        s1\<lparr>flatImageC := True, fill := FillFlatImage, disabled := (rgbaA (flatColor s1) = 0)\<rparr>
      else if rgbaA (flatColor s1) = 0x00 \<and> rgbaB (flatColor s1) AND 0x80 \<noteq> 0 then
        (let res = initGradient F (flatColor s1) (s1\<lparr>fill := FillGradient\<rparr>) in
         (snd res)\<lparr>disabled := \<not> fst res\<rparr>)
      else s1)"

definition StartPath :: "farith \<Rightarrow> 8 word \<Rightarrow> fl \<Rightarrow> fl \<Rightarrow> 'img Rasterizer \<Rightarrow> 'img Rasterizer" where
  "StartPath F adj x y s =
     (let s2 = resolvePaint F adj s;
          width = Dx (rect s2);
          height = Dy (rect s2);
          h = Fin (int_to32 F (sint height));
          s3 = s2\<lparr>disabled := (disabled s2 \<or> \<not> (fle (lod0 s2) h \<and> flt h (lod1 s2)))\<rparr>
      in if disabled s3 then s3
         else
           (let s4 = s3\<lparr>zz := zReset width height (zz s3)\<rparr>;
                s5 = (if firstStartPath s4
                      then s4\<lparr>firstStartPath := False, zz := zSetDrawOp (drawOp s4) (zz s4)\<rparr>
                      else s4);
                s6 = s5\<lparr>prevSmoothType := smoothTypeNone\<rparr>
            in s6\<lparr>zz := zMoveTo (absVec2 F s6 x y) (zz s6)\<rparr>))"

definition paintOf :: "'img Rasterizer \<Rightarrow> Paint" where
  \<comment> \<open>what the image \<open>z.fill\<close> is when it is passed to \<open>Draw\<close>\<close>
  "paintOf s = (case fill s of
      FillNil \<Rightarrow> PaintNil
    | FillFlatImage \<Rightarrow> PaintUniform (flatColor s)
    | FillGradient \<Rightarrow> PaintGradient (gradient s))"

definition ClosePathEndPath :: "'img Rasterizer \<Rightarrow> 'img Rasterizer" where
  "ClosePathEndPath s =
     (if disabled s then s
      else
        (let s1 = s\<lparr>zz := zClosePath (zz s)\<rparr> in
         case dst s1 of
           None \<Rightarrow> s1
         | Some d \<Rightarrow> s1\<lparr>zz := zDraw d (rect s1) (paintOf s1) (0, 0) (zz s1)\<rparr>))"

subsection \<open>Moves, lines and curves\<close>

definition ClosePathAbsMoveTo :: "farith \<Rightarrow> fl \<Rightarrow> fl \<Rightarrow> 'img Rasterizer \<Rightarrow> 'img Rasterizer" where
  "ClosePathAbsMoveTo F x y s =
     (if disabled s then s
      else
        (let s1 = s\<lparr>prevSmoothType := smoothTypeNone\<rparr>;
             s2 = s1\<lparr>zz := zClosePath (zz s1)\<rparr>
         in s2\<lparr>zz := zMoveTo (absVec2 F s2 x y) (zz s2)\<rparr>))"

definition ClosePathRelMoveTo :: "farith \<Rightarrow> fl \<Rightarrow> fl \<Rightarrow> 'img Rasterizer \<Rightarrow> 'img Rasterizer" where
  "ClosePathRelMoveTo F x y s =
     (if disabled s then s
      else
        (let s1 = s\<lparr>prevSmoothType := smoothTypeNone\<rparr>;
             s2 = s1\<lparr>zz := zClosePath (zz s1)\<rparr>
         in s2\<lparr>zz := zMoveTo (relVec2 F s2 x y) (zz s2)\<rparr>))"

definition AbsHLineTo :: "farith \<Rightarrow> fl \<Rightarrow> 'img Rasterizer \<Rightarrow> 'img Rasterizer" where
  "AbsHLineTo F x s =
     (if disabled s then s
      else
        (let s1 = s\<lparr>prevSmoothType := smoothTypeNone\<rparr>;
             pen = zpen (zz s1)
         in s1\<lparr>zz := zLineTo (absX F s1 x, snd pen) (zz s1)\<rparr>))"

definition RelHLineTo :: "farith \<Rightarrow> fl \<Rightarrow> 'img Rasterizer \<Rightarrow> 'img Rasterizer" where
  "RelHLineTo F x s =
     (if disabled s then s
      else
        (let s1 = s\<lparr>prevSmoothType := smoothTypeNone\<rparr>;
             pen = zpen (zz s1)
         in s1\<lparr>zz := zLineTo (add32 F (fst pen) (relX F s1 x), snd pen) (zz s1)\<rparr>))"

definition AbsVLineTo :: "farith \<Rightarrow> fl \<Rightarrow> 'img Rasterizer \<Rightarrow> 'img Rasterizer" where
  "AbsVLineTo F y s =
     (if disabled s then s
      else
        (let s1 = s\<lparr>prevSmoothType := smoothTypeNone\<rparr>;
             pen = zpen (zz s1)
         in s1\<lparr>zz := zLineTo (fst pen, absY F s1 y) (zz s1)\<rparr>))"

definition RelVLineTo :: "farith \<Rightarrow> fl \<Rightarrow> 'img Rasterizer \<Rightarrow> 'img Rasterizer" where
  "RelVLineTo F y s =
     (if disabled s then s
      else
        (let s1 = s\<lparr>prevSmoothType := smoothTypeNone\<rparr>;
             pen = zpen (zz s1)
         in s1\<lparr>zz := zLineTo (fst pen, add32 F (snd pen) (relY F s1 y)) (zz s1)\<rparr>))"

definition AbsLineTo :: "farith \<Rightarrow> fl \<Rightarrow> fl \<Rightarrow> 'img Rasterizer \<Rightarrow> 'img Rasterizer" where
  "AbsLineTo F x y s =
     (if disabled s then s
      else
        (let s1 = s\<lparr>prevSmoothType := smoothTypeNone\<rparr>
         in s1\<lparr>zz := zLineTo (absVec2 F s1 x y) (zz s1)\<rparr>))"

definition RelLineTo :: "farith \<Rightarrow> fl \<Rightarrow> fl \<Rightarrow> 'img Rasterizer \<Rightarrow> 'img Rasterizer" where
  "RelLineTo F x y s =
     (if disabled s then s
      else
        (let s1 = s\<lparr>prevSmoothType := smoothTypeNone\<rparr>
         in s1\<lparr>zz := zLineTo (relVec2 F s1 x y) (zz s1)\<rparr>))"

text \<open>
  The smooth quadratic commands assign \<open>prevSmoothType\<close> first and call
  \<open>implicitSmoothPoint\<close> second, on the state with that assignment done.
\<close>

definition AbsSmoothQuadTo :: "farith \<Rightarrow> fl \<Rightarrow> fl \<Rightarrow> 'img Rasterizer \<Rightarrow> 'img Rasterizer" where
  "AbsSmoothQuadTo F x y s =
     (if disabled s then s
      else
        (let s1 = s\<lparr>prevSmoothType := smoothTypeQuad\<rparr>;
             s2 = s1\<lparr>prevSmoothPoint := implicitSmoothPoint F s1 smoothTypeQuad\<rparr>
         in s2\<lparr>zz := zQuadTo (prevSmoothPoint s2) (absVec2 F s2 x y) (zz s2)\<rparr>))"

definition RelSmoothQuadTo :: "farith \<Rightarrow> fl \<Rightarrow> fl \<Rightarrow> 'img Rasterizer \<Rightarrow> 'img Rasterizer" where
  "RelSmoothQuadTo F x y s =
     (if disabled s then s
      else
        (let s1 = s\<lparr>prevSmoothType := smoothTypeQuad\<rparr>;
             s2 = s1\<lparr>prevSmoothPoint := implicitSmoothPoint F s1 smoothTypeQuad\<rparr>
         in s2\<lparr>zz := zQuadTo (prevSmoothPoint s2) (relVec2 F s2 x y) (zz s2)\<rparr>))"

definition AbsQuadTo ::
  "farith \<Rightarrow> fl \<Rightarrow> fl \<Rightarrow> fl \<Rightarrow> fl \<Rightarrow> 'img Rasterizer \<Rightarrow> 'img Rasterizer" where
  "AbsQuadTo F x1 y1 x y s =
     (if disabled s then s
      else
        (let s1 = s\<lparr>prevSmoothType := smoothTypeQuad\<rparr>;
             s2 = s1\<lparr>prevSmoothPoint := absVec2 F s1 x1 y1\<rparr>
         in s2\<lparr>zz := zQuadTo (prevSmoothPoint s2) (absVec2 F s2 x y) (zz s2)\<rparr>))"

definition RelQuadTo ::
  "farith \<Rightarrow> fl \<Rightarrow> fl \<Rightarrow> fl \<Rightarrow> fl \<Rightarrow> 'img Rasterizer \<Rightarrow> 'img Rasterizer" where
  "RelQuadTo F x1 y1 x y s =
     (if disabled s then s
      else
        (let s1 = s\<lparr>prevSmoothType := smoothTypeQuad\<rparr>;
             s2 = s1\<lparr>prevSmoothPoint := relVec2 F s1 x1 y1\<rparr>
         in s2\<lparr>zz := zQuadTo (prevSmoothPoint s2) (relVec2 F s2 x y) (zz s2)\<rparr>))"

definition AbsSmoothCubeTo ::
  "farith \<Rightarrow> fl \<Rightarrow> fl \<Rightarrow> fl \<Rightarrow> fl \<Rightarrow> 'img Rasterizer \<Rightarrow> 'img Rasterizer" where
  "AbsSmoothCubeTo F x2 y2 x y s =
     (if disabled s then s
      else
        (let p1 = implicitSmoothPoint F s smoothTypeCube;
             s1 = s\<lparr>prevSmoothType := smoothTypeCube\<rparr>;
             s2 = s1\<lparr>prevSmoothPoint := absVec2 F s1 x2 y2\<rparr>
         in s2\<lparr>zz := zCubeTo p1 (prevSmoothPoint s2) (absVec2 F s2 x y) (zz s2)\<rparr>))"

definition RelSmoothCubeTo ::
  "farith \<Rightarrow> fl \<Rightarrow> fl \<Rightarrow> fl \<Rightarrow> fl \<Rightarrow> 'img Rasterizer \<Rightarrow> 'img Rasterizer" where
  "RelSmoothCubeTo F x2 y2 x y s =
     (if disabled s then s
      else
        (let p1 = implicitSmoothPoint F s smoothTypeCube;
             s1 = s\<lparr>prevSmoothType := smoothTypeCube\<rparr>;
             s2 = s1\<lparr>prevSmoothPoint := relVec2 F s1 x2 y2\<rparr>
         in s2\<lparr>zz := zCubeTo p1 (prevSmoothPoint s2) (relVec2 F s2 x y) (zz s2)\<rparr>))"

definition AbsCubeTo ::
  "farith \<Rightarrow> fl \<Rightarrow> fl \<Rightarrow> fl \<Rightarrow> fl \<Rightarrow> fl \<Rightarrow> fl \<Rightarrow> 'img Rasterizer \<Rightarrow> 'img Rasterizer" where
  "AbsCubeTo F x1 y1 x2 y2 x y s =
     (if disabled s then s
      else
        (let s1 = s\<lparr>prevSmoothType := smoothTypeCube\<rparr>;
             s2 = s1\<lparr>prevSmoothPoint := absVec2 F s1 x2 y2\<rparr>
         in s2\<lparr>zz := zCubeTo (absVec2 F s2 x1 y1) (prevSmoothPoint s2) (absVec2 F s2 x y)
                        (zz s2)\<rparr>))"

definition RelCubeTo ::
  "farith \<Rightarrow> fl \<Rightarrow> fl \<Rightarrow> fl \<Rightarrow> fl \<Rightarrow> fl \<Rightarrow> fl \<Rightarrow> 'img Rasterizer \<Rightarrow> 'img Rasterizer" where
  "RelCubeTo F x1 y1 x2 y2 x y s =
     (if disabled s then s
      else
        (let s1 = s\<lparr>prevSmoothType := smoothTypeCube\<rparr>;
             s2 = s1\<lparr>prevSmoothPoint := relVec2 F s1 x2 y2\<rparr>
         in s2\<lparr>zz := zCubeTo (relVec2 F s2 x1 y1) (prevSmoothPoint s2) (relVec2 F s2 x y)
                        (zz s2)\<rparr>))"

subsection \<open>Arcs\<close>

definition angle :: "farith \<Rightarrow> fl \<Rightarrow> fl \<Rightarrow> fl \<Rightarrow> fl \<Rightarrow> fl" where
  "angle F ux uy vx vy =
     (let uNorm = sqrt64 F (add64 F (mul64 F ux ux) (mul64 F uy uy));
          vNorm = sqrt64 F (add64 F (mul64 F vx vx) (mul64 F vy vy));
          norm = mul64 F uNorm vNorm;
          cos = div64 F (add64 F (mul64 F ux vx) (mul64 F uy vy)) norm;
          ret = (if fle cos (fneg (Fin 1)) then pi64 F
                 else if fle (Fin 1) cos then Fin 0
                 else acos64 F cos)
      in if flt (mul64 F ux vy) (mul64 F uy vx) then fneg ret else ret)"

definition arcSegmentTo ::
  "farith \<Rightarrow> fl \<Rightarrow> fl \<Rightarrow> fl \<Rightarrow> fl \<Rightarrow> fl \<Rightarrow> fl \<Rightarrow> fl \<Rightarrow> fl \<Rightarrow> 'img Rasterizer \<Rightarrow> 'img Rasterizer" where
  "arcSegmentTo F cx cy theta1 theta2 rx ry cosPhi sinPhi s =
     (let halfDeltaTheta = mul64 F (sub64 F theta2 theta1) (Fin 0.5);
          q = sin64 F (mul64 F halfDeltaTheta (Fin 0.5));
          t = div64 F (mul64 F (mul64 F (Fin 8) q) q) (mul64 F (Fin 3) (sin64 F halfDeltaTheta));
          cos1 = cos64 F theta1;
          sin1 = sin64 F theta1;
          cos2 = cos64 F theta2;
          sin2 = sin64 F theta2;
          x1 = mul64 F rx (sub64 F cos1 (mul64 F t sin1));
          y1 = mul64 F ry (add64 F sin1 (mul64 F t cos1));
          x2 = mul64 F rx (add64 F cos2 (mul64 F t sin2));
          y2 = mul64 F ry (sub64 F sin2 (mul64 F t cos2));
          x3 = mul64 F rx cos2;
          y3 = mul64 F ry sin2
      in s\<lparr>zz := zCubeTo
           (absX F s (f64_to32 F (sub64 F (add64 F cx (mul64 F cosPhi x1)) (mul64 F sinPhi y1))),
            absY F s (f64_to32 F (add64 F (add64 F cy (mul64 F sinPhi x1)) (mul64 F cosPhi y1))))
           (absX F s (f64_to32 F (sub64 F (add64 F cx (mul64 F cosPhi x2)) (mul64 F sinPhi y2))),
            absY F s (f64_to32 F (add64 F (add64 F cy (mul64 F sinPhi x2)) (mul64 F cosPhi y2))))
           (absX F s (f64_to32 F (sub64 F (add64 F cx (mul64 F cosPhi x3)) (mul64 F sinPhi y3))),
            absY F s (f64_to32 F (add64 F (add64 F cy (mul64 F sinPhi x3)) (mul64 F cosPhi y3))))
           (zz s)\<rparr>)"

text \<open>
  \<open>AbsArcTo\<close> after the check of the radii, in two parts. First the conversion from the
  endpoint to the center parameterization: \<open>arcParams\<close> gives the values of the local
  variables \<open>cx\<close>, \<open>cy\<close>, \<open>theta1\<close>, \<open>deltaTheta\<close>, \<open>n\<close>, \<open>Rx\<close>, \<open>Ry\<close>, \<open>cosPhi\<close> and
  \<open>sinPhi\<close> when the loop starts. Then the loop, \<open>arcSegments\<close>: one \<open>arcSegmentTo\<close> for
  each \<open>i\<close> from \<open>0\<close> to \<open>n - 1\<close> (none when \<open>n \<le> 0\<close>).
\<close>

definition arcParams ::
  "farith \<Rightarrow> fl \<Rightarrow> fl \<Rightarrow> fl \<Rightarrow> bool \<Rightarrow> bool \<Rightarrow> fl \<Rightarrow> fl \<Rightarrow> 'img Rasterizer
     \<Rightarrow> fl \<times> fl \<times> fl \<times> fl \<times> int \<times> fl \<times> fl \<times> fl \<times> fl" where
  "arcParams F Rx0 Ry0 xAxisRotation largeArc sweep x y s =
     (let pen = zpen (zz s);
          x1 = unabsX F s (fst pen);
          y1 = unabsY F s (snd pen);
          x2 = x;
          y2 = y;
          phi = mul64 F (two_pi64 F) xAxisRotation;
          halfDx = div64 F (sub64 F x1 x2) (Fin 2);
          halfDy = div64 F (sub64 F y1 y2) (Fin 2);
          cosPhi = cos64 F phi;
          sinPhi = sin64 F phi;
          x1Prime = add64 F (mul64 F cosPhi halfDx) (mul64 F sinPhi halfDy);
          y1Prime = add64 F (mul64 F (fneg sinPhi) halfDx) (mul64 F cosPhi halfDy);
          x1PrimeSq = mul64 F x1Prime x1Prime;
          y1PrimeSq = mul64 F y1Prime y1Prime;
          radiiCheck = add64 F (div64 F x1PrimeSq (mul64 F Rx0 Rx0))
                                (div64 F y1PrimeSq (mul64 F Ry0 Ry0));
          c = sqrt64 F radiiCheck;
          Rx = (if flt (Fin 1) radiiCheck then mul64 F Rx0 c else Rx0);
          Ry = (if flt (Fin 1) radiiCheck then mul64 F Ry0 c else Ry0);
          rxSq = mul64 F Rx Rx;
          rySq = mul64 F Ry Ry;
          denom = add64 F (mul64 F rxSq y1PrimeSq) (mul64 F rySq x1PrimeSq);
          a = sub64 F (div64 F (mul64 F rxSq rySq) denom) (Fin 1);
          step2a = (if flt (Fin 0) a then sqrt64 F a else Fin 0);
          step2 = (if largeArc = sweep then fneg step2a else step2a);
          cxPrime = div64 F (mul64 F (mul64 F step2 Rx) y1Prime) Ry;
          cyPrime = div64 F (mul64 F (mul64 F (fneg step2) Ry) x1Prime) Rx;
          cx = add64 F (sub64 F (mul64 F cosPhi cxPrime) (mul64 F sinPhi cyPrime))
                       (div64 F (add64 F x1 x2) (Fin 2));
          cy = add64 F (add64 F (mul64 F sinPhi cxPrime) (mul64 F cosPhi cyPrime))
                       (div64 F (add64 F y1 y2) (Fin 2));
          ax = div64 F (sub64 F x1Prime cxPrime) Rx;
          ay = div64 F (sub64 F y1Prime cyPrime) Ry;
          bx = div64 F (sub64 F (fneg x1Prime) cxPrime) Rx;
          by = div64 F (sub64 F (fneg y1Prime) cyPrime) Ry;
          theta1 = angle F (Fin 1) (Fin 0) ax ay;
          deltaTheta0 = angle F ax ay bx by;
          deltaTheta =
            (if sweep then
               (if flt deltaTheta0 (Fin 0) then add64 F deltaTheta0 (two_pi64 F) else deltaTheta0)
             else
               (if flt (Fin 0) deltaTheta0 then sub64 F deltaTheta0 (two_pi64 F) else deltaTheta0));
          n = f64_to_int F (ceil64 F (div64 F (fabs deltaTheta) (half_pi_eps64 F)))
      in (cx, cy, theta1, deltaTheta, n, Rx, Ry, cosPhi, sinPhi))"

definition arcSegments ::
  "farith \<Rightarrow> fl \<Rightarrow> fl \<Rightarrow> fl \<Rightarrow> fl \<Rightarrow> int \<Rightarrow> fl \<Rightarrow> fl \<Rightarrow> fl \<Rightarrow> fl \<Rightarrow> 'img Rasterizer
     \<Rightarrow> 'img Rasterizer" where
  "arcSegments F cx cy theta1 deltaTheta n Rx Ry cosPhi sinPhi s =
     fold (\<lambda>i. arcSegmentTo F cx cy
                 (add64 F theta1
                    (div64 F (mul64 F deltaTheta (Fin (int_to64 F (i + 0)))) (Fin (int_to64 F n))))
                 (add64 F theta1
                    (div64 F (mul64 F deltaTheta (Fin (int_to64 F (i + 1)))) (Fin (int_to64 F n))))
                 Rx Ry cosPhi sinPhi)
       [0..n - 1] s"

definition AbsArcTo ::
  "farith \<Rightarrow> fl \<Rightarrow> fl \<Rightarrow> fl \<Rightarrow> bool \<Rightarrow> bool \<Rightarrow> fl \<Rightarrow> fl \<Rightarrow> 'img Rasterizer \<Rightarrow> 'img Rasterizer" where
  "AbsArcTo F rx ry xAxisRotation largeArc sweep x y s =
     (if disabled s then s
      else
        (let s1 = s\<lparr>prevSmoothType := smoothTypeNone\<rparr>;
             Rx = fabs rx;
             Ry = fabs ry
         in if \<not> (flt (Fin 0) Rx \<and> flt (Fin 0) Ry) then s1\<lparr>zz := zLineTo (x, y) (zz s1)\<rparr>
            else
              (case arcParams F Rx Ry xAxisRotation largeArc sweep x y s1 of
                 (cx, cy, theta1, deltaTheta, n, Rx', Ry', cosPhi, sinPhi) \<Rightarrow>
                   arcSegments F cx cy theta1 deltaTheta n Rx' Ry' cosPhi sinPhi s1)))"

definition RelArcTo ::
  "farith \<Rightarrow> fl \<Rightarrow> fl \<Rightarrow> fl \<Rightarrow> bool \<Rightarrow> bool \<Rightarrow> fl \<Rightarrow> fl \<Rightarrow> 'img Rasterizer \<Rightarrow> 'img Rasterizer" where
  "RelArcTo F rx ry xAxisRotation largeArc sweep x y s =
     (let a = relVec2 F s x y in
      AbsArcTo F rx ry xAxisRotation largeArc sweep (unabsX F s (fst a)) (unabsY F s (snd a)) s)"

subsection \<open>Runs of commands\<close>

text \<open>The decoder calls the methods of the rasterizer one after the other.\<close>

datatype ('c, 'img) cmd =
    CmdSetDstImage "'img option" Rectangle Op
  | CmdReset Metadata
  | CmdSetCSel "8 word"
  | CmdSetNSel "8 word"
  | CmdSetCReg "8 word" bool 'c
  | CmdSetNReg "8 word" bool fl
  | CmdSetLOD fl fl
  | CmdStartPath "8 word" fl fl
  | CmdClosePathEndPath
  | CmdClosePathAbsMoveTo fl fl
  | CmdClosePathRelMoveTo fl fl
  | CmdAbsHLineTo fl
  | CmdRelHLineTo fl
  | CmdAbsVLineTo fl
  | CmdRelVLineTo fl
  | CmdAbsLineTo fl fl
  | CmdRelLineTo fl fl
  | CmdAbsSmoothQuadTo fl fl
  | CmdRelSmoothQuadTo fl fl
  | CmdAbsQuadTo fl fl fl fl
  | CmdRelQuadTo fl fl fl fl
  | CmdAbsSmoothCubeTo fl fl fl fl
  | CmdRelSmoothCubeTo fl fl fl fl
  | CmdAbsCubeTo fl fl fl fl fl fl
  | CmdRelCubeTo fl fl fl fl fl fl
  | CmdAbsArcTo fl fl fl bool bool fl fl
  | CmdRelArcTo fl fl fl bool bool fl fl

fun exec ::
  "farith \<Rightarrow> ('c \<Rightarrow> (nat \<Rightarrow> RGBA) \<Rightarrow> (nat \<Rightarrow> RGBA) \<Rightarrow> RGBA) \<Rightarrow> ('c, 'img) cmd
     \<Rightarrow> 'img Rasterizer \<Rightarrow> 'img Rasterizer" where
  "exec F rs (CmdSetDstImage d q dop) s = SetDstImage F d q dop s"
| "exec F rs (CmdReset m) s = Reset F m s"
| "exec F rs (CmdSetCSel v) s = SetCSel v s"
| "exec F rs (CmdSetNSel v) s = SetNSel v s"
| "exec F rs (CmdSetCReg adj incr c) s = SetCReg rs adj incr c s"
| "exec F rs (CmdSetNReg adj incr f) s = SetNReg adj incr f s"
| "exec F rs (CmdSetLOD l0 l1) s = SetLOD l0 l1 s"
| "exec F rs (CmdStartPath adj x y) s = StartPath F adj x y s"
| "exec F rs CmdClosePathEndPath s = ClosePathEndPath s"
| "exec F rs (CmdClosePathAbsMoveTo x y) s = ClosePathAbsMoveTo F x y s"
| "exec F rs (CmdClosePathRelMoveTo x y) s = ClosePathRelMoveTo F x y s"
| "exec F rs (CmdAbsHLineTo x) s = AbsHLineTo F x s"
| "exec F rs (CmdRelHLineTo x) s = RelHLineTo F x s"
| "exec F rs (CmdAbsVLineTo y) s = AbsVLineTo F y s"
| "exec F rs (CmdRelVLineTo y) s = RelVLineTo F y s"
| "exec F rs (CmdAbsLineTo x y) s = AbsLineTo F x y s"
| "exec F rs (CmdRelLineTo x y) s = RelLineTo F x y s"
| "exec F rs (CmdAbsSmoothQuadTo x y) s = AbsSmoothQuadTo F x y s"
| "exec F rs (CmdRelSmoothQuadTo x y) s = RelSmoothQuadTo F x y s"
| "exec F rs (CmdAbsQuadTo x1 y1 x y) s = AbsQuadTo F x1 y1 x y s"
| "exec F rs (CmdRelQuadTo x1 y1 x y) s = RelQuadTo F x1 y1 x y s"
| "exec F rs (CmdAbsSmoothCubeTo x2 y2 x y) s = AbsSmoothCubeTo F x2 y2 x y s"
| "exec F rs (CmdRelSmoothCubeTo x2 y2 x y) s = RelSmoothCubeTo F x2 y2 x y s"
| "exec F rs (CmdAbsCubeTo x1 y1 x2 y2 x y) s = AbsCubeTo F x1 y1 x2 y2 x y s"
| "exec F rs (CmdRelCubeTo x1 y1 x2 y2 x y) s = RelCubeTo F x1 y1 x2 y2 x y s"
| "exec F rs (CmdAbsArcTo rx ry rot la sw x y) s = AbsArcTo F rx ry rot la sw x y s"
| "exec F rs (CmdRelArcTo rx ry rot la sw x y) s = RelArcTo F rx ry rot la sw x y s"

fun run ::
  "farith \<Rightarrow> ('c \<Rightarrow> (nat \<Rightarrow> RGBA) \<Rightarrow> (nat \<Rightarrow> RGBA) \<Rightarrow> RGBA) \<Rightarrow> ('c, 'img) cmd list
     \<Rightarrow> 'img Rasterizer \<Rightarrow> 'img Rasterizer" where
  "run F rs [] s = s"
| "run F rs (c # cs) s = run F rs cs (exec F rs c s)"



section \<open>Notions of the specification\<close>

text \<open>
  A color register holds a gradient descriptor when its alpha is zero and bit 7 of its
  blue channel is set; the LOD gate compares the height of the destination rectangle,
  converted to \<open>float32\<close>, with the two bounds.
\<close>

definition isGradientDescriptor :: "RGBA \<Rightarrow> bool" where
  "isGradientDescriptor c = (rgbaA c = 0 \<and> rgbaB c AND 0x80 \<noteq> 0)"

definition pathColor :: "8 word \<Rightarrow> 'img Rasterizer \<Rightarrow> RGBA" where
  \<comment> \<open>the color register a \<open>StartPath\<close> with adjustment \<open>adj\<close> reads\<close>
  "pathColor adj s = cReg s (unat ((cSel s - adj) AND 0x3f))"

definition lodHeight :: "farith \<Rightarrow> 'img Rasterizer \<Rightarrow> fl" where
  "lodHeight F s = Fin (int_to32 F (sint (Dy (rect s))))"

definition lodGate :: "farith \<Rightarrow> 'img Rasterizer \<Rightarrow> bool" where
  "lodGate F s = (fle (lod0 s) (lodHeight F s) \<and> flt (lodHeight F s) (lod1 s))"

text \<open>
  The stops of a gradient descriptor \<open>g\<close>, as the specification numbers them: stop \<open>i\<close>
  has its color in the color register \<open>(c_base + i) mod 64\<close> and its offset in the scalar
  register \<open>(n_base + i) mod 64\<close>. The gradient is refused when a stop color is
  not valid premultiplied, or an offset is outside \<open>[0, 1]\<close>, or an offset is not
  strictly greater than the one before it (\<open>-\<infinity>\<close> before the first).
\<close>

definition nStopsOf :: "RGBA \<Rightarrow> int" where
  "nStopsOf g = uint (rgbaR g AND 0x3f)"

definition stopColor :: "'img Rasterizer \<Rightarrow> RGBA \<Rightarrow> int \<Rightarrow> RGBA" where
  "stopColor s g i = cReg s (nat ((uint (rgbaG g AND 0x3f) + i) mod 64))"

definition stopOffset :: "'img Rasterizer \<Rightarrow> RGBA \<Rightarrow> int \<Rightarrow> fl" where
  "stopOffset s g i = nReg s (nat ((uint (rgbaB g AND 0x3f) + i) mod 64))"

definition gradientRefused :: "'img Rasterizer \<Rightarrow> RGBA \<Rightarrow> bool" where
  "gradientRefused s g =
     ((\<exists>i \<in> set [0..nStopsOf g - 1]. \<not> validAlphaPremulColor (stopColor s g i)) \<or>
      (\<exists>i \<in> set [0..nStopsOf g - 1].
          \<not> (fle (Fin 0) (stopOffset s g i) \<and> fle (stopOffset s g i) (Fin 1))) \<or>
      (\<exists>i \<in> set [0..nStopsOf g - 1].
          \<not> flt (if i = 0 then NInf else stopOffset s g (i - 1)) (stopOffset s g i)))"

definition stopPasses :: "(nat \<Rightarrow> RGBA) \<Rightarrow> (nat \<Rightarrow> fl) \<Rightarrow> int \<Rightarrow> int \<Rightarrow> fl \<Rightarrow> int \<Rightarrow> bool" where
  \<comment> \<open>what one turn of the loop of \<open>initGradient\<close> checks of stop \<open>j\<close>, after the offset \<open>p\<close>\<close>
  "stopPasses cr nr cB nB p j =
     (validAlphaPremulColor (cr (nat ((cB + j) mod 64))) \<and>
      fle (Fin 0) (nr (nat ((nB + j) mod 64))) \<and> fle (nr (nat ((nB + j) mod 64))) (Fin 1) \<and>
      flt p (nr (nat ((nB + j) mod 64))))"

definition paintUsable :: "'img Rasterizer \<Rightarrow> RGBA \<Rightarrow> bool" where
  \<comment> \<open>the resolved paint is valid and not transparent\<close>
  "paintUsable s c =
     (if validAlphaPremulColor c then rgbaA c \<noteq> 0
      else isGradientDescriptor c \<and> \<not> gradientRefused s c)"

text \<open>
  Latching: the assignments to the field \<open>DrawOp\<close> of the coverage rasterizer that a
  run makes, each with the position in the run of the command that made it; and, to
  compare, the \<open>StartPath\<close> commands of the run that leave their path enabled, each with
  the operator the rasterizer holds when the command starts.
\<close>

fun isSetDrawOp :: "'img zcall \<Rightarrow> bool" where
  "isSetDrawOp (ZSetDrawOp d) = True"
| "isSetDrawOp _ = False"

fun isCubeTo :: "'img zcall \<Rightarrow> bool" where
  "isCubeTo (ZCubeTo c1 c2 p) = True"
| "isCubeTo _ = False"

fun isDraw :: "'img zcall \<Rightarrow> bool" where
  "isDraw (ZDraw d q p sp) = True"
| "isDraw _ = False"

fun isReset :: "('c, 'img) cmd \<Rightarrow> bool" where
  "isReset (CmdReset m) = True"
| "isReset _ = False"

fun isStartPath :: "('c, 'img) cmd \<Rightarrow> bool" where
  "isStartPath (CmdStartPath adj x y) = True"
| "isStartPath _ = False"

definition newCalls :: "'img Rasterizer \<Rightarrow> 'img Rasterizer \<Rightarrow> 'img zcall list" where
  \<comment> \<open>the calls the coverage rasterizer received between the state \<open>s\<close> and the later \<open>s'\<close>\<close>
  "newCalls s s' = drop (length (zcalls (zz s))) (zcalls (zz s'))"

fun latchSteps ::
  "farith \<Rightarrow> ('c \<Rightarrow> (nat \<Rightarrow> RGBA) \<Rightarrow> (nat \<Rightarrow> RGBA) \<Rightarrow> RGBA) \<Rightarrow> nat \<Rightarrow> ('c, 'img) cmd list
     \<Rightarrow> 'img Rasterizer \<Rightarrow> (nat \<times> 'img zcall) list" where
  "latchSteps F rs k [] s = []"
| "latchSteps F rs k (c # cs) s =
     map (Pair k) (filter isSetDrawOp (newCalls s (exec F rs c s)))
       @ latchSteps F rs (Suc k) cs (exec F rs c s)"

fun enabledStarts ::
  "farith \<Rightarrow> ('c \<Rightarrow> (nat \<Rightarrow> RGBA) \<Rightarrow> (nat \<Rightarrow> RGBA) \<Rightarrow> RGBA) \<Rightarrow> nat \<Rightarrow> ('c, 'img) cmd list
     \<Rightarrow> 'img Rasterizer \<Rightarrow> (nat \<times> 'img zcall) list" where
  "enabledStarts F rs k [] s = []"
| "enabledStarts F rs k (c # cs) s =
     (if isStartPath c \<and> \<not> disabled (exec F rs c s) then [(k, ZSetDrawOp (drawOp s))] else [])
       @ enabledStarts F rs (Suc k) cs (exec F rs c s)"

text \<open>
  A \<open>StartPath\<close> is well formed when the register it reads is a color or a gradient
  descriptor; it is usable, in the state it starts from, when moreover its paint is
  valid and not transparent and the LOD gate lets the height pass. \<open>usableStarts\<close>
  lists the usable \<open>StartPath\<close> commands of a run as \<open>enabledStarts\<close> lists the ones
  that leave the flag \<open>disabled\<close> clear.
\<close>

fun startWellFormed :: "('c, 'img) cmd \<Rightarrow> 'img Rasterizer \<Rightarrow> bool" where
  "startWellFormed (CmdStartPath adj x y) s =
     (validAlphaPremulColor (pathColor adj s) \<or> isGradientDescriptor (pathColor adj s))"
| "startWellFormed _ s = True"

fun startUsable :: "farith \<Rightarrow> ('c, 'img) cmd \<Rightarrow> 'img Rasterizer \<Rightarrow> bool" where
  "startUsable F (CmdStartPath adj x y) s = (paintUsable s (pathColor adj s) \<and> lodGate F s)"
| "startUsable F _ s = False"

fun wellFormedStarts ::
  "farith \<Rightarrow> ('c \<Rightarrow> (nat \<Rightarrow> RGBA) \<Rightarrow> (nat \<Rightarrow> RGBA) \<Rightarrow> RGBA) \<Rightarrow> ('c, 'img) cmd list
     \<Rightarrow> 'img Rasterizer \<Rightarrow> bool" where
  "wellFormedStarts F rs [] s = True"
| "wellFormedStarts F rs (c # cs) s =
     (startWellFormed c s \<and> wellFormedStarts F rs cs (exec F rs c s))"

fun usableStarts ::
  "farith \<Rightarrow> ('c \<Rightarrow> (nat \<Rightarrow> RGBA) \<Rightarrow> (nat \<Rightarrow> RGBA) \<Rightarrow> RGBA) \<Rightarrow> nat \<Rightarrow> ('c, 'img) cmd list
     \<Rightarrow> 'img Rasterizer \<Rightarrow> (nat \<times> 'img zcall) list" where
  "usableStarts F rs k [] s = []"
| "usableStarts F rs k (c # cs) s =
     (if startUsable F c s then [(k, ZSetDrawOp (drawOp s))] else [])
       @ usableStarts F rs (Suc k) cs (exec F rs c s)"


section \<open>Example inputs\<close>

text \<open>
  The examples are evaluated with a reference arithmetic: exact on finite operands, so
  it agrees with IEEE-754 wherever the operands and the exact result are
  representable, as all the numbers of the examples are (small integers). Outside the
  finite numbers it answers NaN, but for the division by zero.
\<close>

fun ex2 :: "(real \<Rightarrow> real \<Rightarrow> real) \<Rightarrow> fl \<Rightarrow> fl \<Rightarrow> fl" where
  "ex2 f (Fin a) (Fin b) = Fin (f a b)"
| "ex2 f _ _ = NaN"

fun ex_div :: "fl \<Rightarrow> fl \<Rightarrow> fl" where
  "ex_div (Fin a) (Fin b) =
     (if b \<noteq> 0 then Fin (a / b) else if a = 0 then NaN else if 0 < a then PInf else NInf)"
| "ex_div _ _ = NaN"

fun ex1 :: "(real \<Rightarrow> real) \<Rightarrow> fl \<Rightarrow> fl" where
  "ex1 f (Fin a) = Fin (f a)"
| "ex1 f _ = NaN"

fun ex_trunc :: "fl \<Rightarrow> int" where
  "ex_trunc (Fin a) = (if 0 \<le> a then \<lfloor>a\<rfloor> else \<lceil>a\<rceil>)"
| "ex_trunc _ = 0"

definition exactF :: farith where
  "exactF = \<lparr>add32 = ex2 (+), sub32 = ex2 (-), mul32 = ex2 (*), div32 = ex_div,
     add64 = ex2 (+), sub64 = ex2 (-), mul64 = ex2 (*), div64 = ex_div,
     int_to32 = of_int, int_to64 = of_int, f64_to32 = (\<lambda>x. x), f64_to_int = ex_trunc,
     sqrt64 = ex1 sqrt, sin64 = ex1 sin, cos64 = ex1 cos, acos64 = ex1 arccos,
     ceil64 = ex1 (\<lambda>a. of_int \<lceil>a\<rceil>),
     pi64 = Fin pi, two_pi64 = Fin (2 * pi), half_pi_eps64 = Fin (pi / 2 + 0.001)\<rparr>"

definition resolve_id :: "RGBA \<Rightarrow> (nat \<Rightarrow> RGBA) \<Rightarrow> (nat \<Rightarrow> RGBA) \<Rightarrow> RGBA" where
  \<comment> \<open>a \<open>Color\<close> that is a plain RGBA value resolves to itself\<close>
  "resolve_id c p r = c"

definition opaque_black :: RGBA where
  "opaque_black = \<lparr>rgbaR = 0, rgbaG = 0, rgbaB = 0, rgbaA = 0xff\<rparr>"

definition malformed_color :: RGBA where
  \<comment> \<open>red above alpha, and bit 7 of blue clear: neither a color nor a gradient\<close>
  "malformed_color = \<lparr>rgbaR = 1, rgbaG = 0, rgbaB = 0, rgbaA = 0\<rparr>"

definition empty_gradient :: RGBA where
  \<comment> \<open>a linear gradient descriptor with no stops, \<open>c_base = n_base = 0\<close>\<close>
  "empty_gradient = \<lparr>rgbaR = 0, rgbaG = 0, rgbaB = 0x80, rgbaA = 0\<rparr>"

definition two_stop_gradient :: RGBA where
  \<comment> \<open>a linear gradient descriptor with two stops, \<open>c_base = 0\<close>, \<open>n_base = 4\<close>\<close>
  "two_stop_gradient = \<lparr>rgbaR = 2, rgbaG = 0, rgbaB = 0x84, rgbaA = 0\<rparr>"

definition example_metadata :: Metadata where
  \<comment> \<open>the view box and the palette of the specification's scenarios\<close>
  "example_metadata =
     \<lparr>ViewBox = \<lparr>vbMin = (Fin (- 32), Fin (- 32)), vbMax = (Fin 32, Fin 32)\<rparr>,
      Palette = (\<lambda>_. rgba_zero)(0 := opaque_black)\<rparr>"

definition rect64 :: Rectangle where
  "rect64 = \<lparr>rMin = (0, 0), rMax = (64, 64)\<rparr>"

definition example_start :: "unit Rasterizer" where
  \<comment> \<open>a destination of 64 by 64 pixels is bound, then the rasterizer is reset\<close>
  "example_start =
     Reset exactF example_metadata (SetDstImage exactF (Some ()) rect64 Over rasterizer_zero)"

definition example_lod_skip :: "unit Rasterizer" where
  \<comment> \<open>the LOD bounds exclude the height 64\<close>
  "example_lod_skip = SetLOD (Fin 100) (Fin 200) example_start"

definition example_lod_nan :: "unit Rasterizer" where
  "example_lod_nan = SetLOD NaN PInf example_start"

definition example_two_stops :: "unit Rasterizer" where
  \<comment> \<open>color register 2 holds a gradient of two stops: opaque black at 0.25 and
      transparent black at 0.75; the selector is left on it\<close>
  "example_two_stops =
     run exactF resolve_id
       [CmdSetNSel 4, CmdSetNReg 0 True (Fin 0.25), CmdSetNReg 0 True (Fin 0.75),
        CmdSetCSel 2, CmdSetCReg 0 False two_stop_gradient]
       example_start"

definition example_no_stops :: "unit Rasterizer" where
  \<comment> \<open>color register 2 holds a gradient without stops; the selector is left on it\<close>
  "example_no_stops =
     run exactF resolve_id [CmdSetCSel 2, CmdSetCReg 0 False empty_gradient] example_start"

definition example_equal_stops :: "unit Rasterizer" where
  \<comment> \<open>as \<open>example_two_stops\<close>, but both offsets are 0.5\<close>
  "example_equal_stops =
     run exactF resolve_id
       [CmdSetNSel 4, CmdSetNReg 0 True (Fin 0.5), CmdSetNReg 0 True (Fin 0.5),
        CmdSetCSel 2, CmdSetCReg 0 False two_stop_gradient]
       example_start"

definition example_latch_run :: "(RGBA, unit) cmd list" where
  \<comment> \<open>a path of the transparent register 1, then two paths of the opaque register 0\<close>
  "example_latch_run =
     [CmdSetCSel 1, CmdStartPath 0 (Fin 0) (Fin 0),
      CmdSetCSel 0, CmdStartPath 0 (Fin 0) (Fin 0), CmdClosePathEndPath,
      CmdStartPath 0 (Fin 0) (Fin 0), CmdClosePathEndPath]"

definition example_empty_dst :: "unit Rasterizer" where
  \<comment> \<open>the same with an empty destination rectangle\<close>
  "example_empty_dst =
     Reset exactF example_metadata
       (SetDstImage exactF (Some ()) \<lparr>rMin = (5, 5), rMax = (5, 9)\<rparr> Over rasterizer_zero)"



section \<open>Facts used by several proofs\<close>

lemma mask6: "(0x3f :: 8 word) = mask 6"
  by (simp add: mask_eq_exp_minus_1)

lemma unat_and_0x3f: "unat (w AND 0x3f :: 8 word) = unat w mod 64"
  unfolding mask6 by (simp add: unat_mod take_bit_eq_mod flip: take_bit_eq_mask)

lemma slot_index: "unat ((a - b) AND 0x3f :: 8 word) = nat ((uint a - uint b) mod 64)"
proof -
  have "uint (a - b) = (uint a - uint b) mod 256"
    by (simp add: uint_word_ariths)
  then have "uint (a - b) mod 64 = (uint a - uint b) mod 64"
    by (simp add: mod_mod_cancel)
  moreover have "unat (a - b) mod 64 = nat (uint (a - b) mod 64)"
    by (simp add: nat_mod_distrib)
  ultimately show ?thesis
    by (simp add: unat_and_0x3f)
qed

lemma unat_u8_mod256: "unat (w :: 8 word) mod 256 = unat w"
  using unsigned_less [of w, where ?'a = nat] by simp

lemma mod256_mod64: "(n :: nat) mod 256 mod 64 = n mod 64"
  by (simp add: mod_mod_cancel)

lemmas example_defs = exactF_def resolve_id_def opaque_black_def malformed_color_def
  empty_gradient_def two_stop_gradient_def example_metadata_def rect64_def example_start_def
  example_empty_dst_def example_lod_skip_def example_lod_nan_def example_two_stops_def
  example_no_stops_def example_equal_stops_def rasterizer_zero_def vec_zero_def vec2_zero_def rect_zero_def
  rgba_zero_def metadata_zero_def stop_zero_def Reset_def SetDstImage_def recalcTransform_def
  Empty_def Dx_def Dy_def positiveInfinity_def negativeInfinity_def

lemmas call_defs = zReset_def zSetDrawOp_def zMoveTo_def zLineTo_def zQuadTo_def zCubeTo_def
  zClosePath_def zDraw_def

lemmas path_defs = StartPath_def resolvePaint_def ClosePathEndPath_def SetCReg_def SetNReg_def
  SetCSel_def SetNSel_def SetLOD_def validAlphaPremulColor_def fle_def flt_def absVec2_def
  absX_def absY_def relX_def relY_def relVec2_def paintOf_def implicitSmoothPoint_def Let_def


lemma int_and_0x3f: "(k :: int) AND 0x3f = k mod 64"
proof -
  have "k AND mask 6 = k mod 64"
    by (simp add: take_bit_eq_mod flip: take_bit_eq_mask)
  then show ?thesis
    by (simp add: mask_eq_exp_minus_1)
qed

subsection \<open>The loop of initGradient\<close>

lemma loop_unfold:
  "initGradient_loop cr nr cB nB n i p st =
     (if i < n then
        (if stopPasses cr nr cB nB p i
         then initGradient_loop cr nr cB nB n (i + 1) (nr (nat ((nB + i) mod 64)))
                (st(nat i := \<lparr>Offset = nr (nat ((nB + i) mod 64)),
                        StopRGBA64 = \<lparr>rgba64R = ucast (rgbaR (cr (nat ((cB + i) mod 64)))) * 0x101,
                                       rgba64G = ucast (rgbaG (cr (nat ((cB + i) mod 64)))) * 0x101,
                                       rgba64B = ucast (rgbaB (cr (nat ((cB + i) mod 64)))) * 0x101,
                                       rgba64A = ucast (rgbaA (cr (nat ((cB + i) mod 64)))) * 0x101\<rparr>\<rparr>))
         else (False, st))
      else (True, st))"
  by (subst initGradient_loop.simps) (auto simp: Let_def stopPasses_def int_and_0x3f)

lemma loop_fst:
  "fst (initGradient_loop cr nr cB nB n i p st) =
     (\<forall>j \<in> set [i..n - 1].
        stopPasses cr nr cB nB (if j = i then p else nr (nat ((nB + (j - 1)) mod 64))) j)"
proof (induction "nat (n - i)" arbitrary: i p st)
  case 0
  then have "\<not> i < n" by simp
  then show ?case by (subst loop_unfold) simp
next
  case (Suc k)
  then have lt: "i < n" by simp
  then have up: "[i..n - 1] = i # [i + 1..n - 1]"
    by (simp add: upto_rec1)
  have k: "k = nat (n - (i + 1))" using Suc.hyps(2) by simp
  have rest: "(\<forall>j \<in> set [i + 1..n - 1].
        stopPasses cr nr cB nB
          (if j = i + 1 then nr (nat ((nB + i) mod 64)) else nr (nat ((nB + (j - 1)) mod 64))) j)
     = (\<forall>j \<in> set [i + 1..n - 1].
        stopPasses cr nr cB nB (if j = i then p else nr (nat ((nB + (j - 1)) mod 64))) j)"
    by (rule ball_cong) auto
  show ?case
  proof (cases "stopPasses cr nr cB nB p i")
    case False
    with lt up show ?thesis by (subst loop_unfold) simp
  next
    case True
    have "fst (initGradient_loop cr nr cB nB n i p st) =
        (\<forall>j \<in> set [i + 1..n - 1].
          stopPasses cr nr cB nB
            (if j = i + 1 then nr (nat ((nB + i) mod 64)) else nr (nat ((nB + (j - 1)) mod 64))) j)"
      using lt True by (subst loop_unfold) (simp add: Suc.hyps(1) [OF k])
    with True show ?thesis
      unfolding rest up by simp
  qed
qed

lemma ball_split4:
  "(\<forall>j \<in> A. P j \<and> Q1 j \<and> Q2 j \<and> R j) =
     (\<not> ((\<exists>j \<in> A. \<not> P j) \<or> (\<exists>j \<in> A. \<not> (Q1 j \<and> Q2 j)) \<or> (\<exists>j \<in> A. \<not> R j)))"
  by blast

lemma initGradient_fst0:
  "fst (initGradient F g s) =
      fst (initGradient_loop (cReg s) (nReg s) (uint (rgbaG g AND 0x3f)) (uint (rgbaB g AND 0x3f))
             (uint (rgbaR g AND 0x3f)) 0 negativeInfinity (stops s))"
  unfolding initGradient_def Let_def
  by (simp only: fst_conv if_distrib [of fst] if_cancel simp_thms split: if_splits)

lemma initGradient_fst: "fst (initGradient F g s) = (\<not> gradientRefused s g)"
  unfolding initGradient_fst0 loop_fst gradientRefused_def stopPasses_def stopColor_def
    stopOffset_def nStopsOf_def negativeInfinity_def
  by (rule ball_split4)

lemma initGradient_frame:
  "lod0 (snd (initGradient F g s)) = lod0 s \<and> lod1 (snd (initGradient F g s)) = lod1 s
   \<and> rect (snd (initGradient F g s)) = rect s \<and> dst (snd (initGradient F g s)) = dst s
   \<and> zz (snd (initGradient F g s)) = zz s \<and> drawOp (snd (initGradient F g s)) = drawOp s
   \<and> firstStartPath (snd (initGradient F g s)) = firstStartPath s
   \<and> cReg (snd (initGradient F g s)) = cReg s \<and> nReg (snd (initGradient F g s)) = nReg s
   \<and> flatColor (snd (initGradient F g s)) = flatColor s
   \<and> fill (snd (initGradient F g s)) = fill s
   \<and> prevSmoothType (snd (initGradient F g s)) = prevSmoothType s
   \<and> prevSmoothPoint (snd (initGradient F g s)) = prevSmoothPoint s"
  by (simp add: initGradient_def Let_def)

subsection \<open>The disabled flag after StartPath\<close>

lemma gradientRefused_paint:
  "gradientRefused (s\<lparr>flatColor := c, fill := f\<rparr>) g = gradientRefused s g"
  by (simp add: gradientRefused_def stopColor_def stopOffset_def)

lemma gradient_not_premul: "isGradientDescriptor c \<Longrightarrow> \<not> validAlphaPremulColor c"
  by (auto simp: isGradientDescriptor_def validAlphaPremulColor_def)

lemma resolvePaint_disabled:
  "disabled (resolvePaint F adj s) =
     (if validAlphaPremulColor (pathColor adj s) then rgbaA (pathColor adj s) = 0
      else if isGradientDescriptor (pathColor adj s) then gradientRefused s (pathColor adj s)
      else disabled s)"
  by (simp add: resolvePaint_def Let_def pathColor_def isGradientDescriptor_def initGradient_fst
      gradientRefused_paint)

lemma resolvePaint_frame:
  "lod0 (resolvePaint F adj s) = lod0 s \<and> lod1 (resolvePaint F adj s) = lod1 s
   \<and> rect (resolvePaint F adj s) = rect s \<and> dst (resolvePaint F adj s) = dst s
   \<and> zz (resolvePaint F adj s) = zz s \<and> drawOp (resolvePaint F adj s) = drawOp s
   \<and> firstStartPath (resolvePaint F adj s) = firstStartPath s
   \<and> cReg (resolvePaint F adj s) = cReg s \<and> nReg (resolvePaint F adj s) = nReg s
   \<and> flatColor (resolvePaint F adj s) = pathColor adj s"
  by (simp add: resolvePaint_def Let_def pathColor_def initGradient_frame)

lemma StartPath_disabled:
  "disabled (StartPath F adj x y s) =
     ((if validAlphaPremulColor (pathColor adj s) then rgbaA (pathColor adj s) = 0
       else if isGradientDescriptor (pathColor adj s) then gradientRefused s (pathColor adj s)
       else disabled s)
      \<or> \<not> lodGate F s)"
  by (simp add: StartPath_def Let_def resolvePaint_disabled resolvePaint_frame lodGate_def
      lodHeight_def)


lemma StartPath_fill:
  "fill (StartPath F adj x y s) =
     (if validAlphaPremulColor (pathColor adj s) then FillFlatImage
      else if isGradientDescriptor (pathColor adj s) then FillGradient
      else fill s)"
  by (simp add: StartPath_def resolvePaint_def Let_def pathColor_def isGradientDescriptor_def
      initGradient_frame)

subsection \<open>Comparisons\<close>

lemma fcmp_NaN: "\<not> fle NaN b" "\<not> fle a NaN" "\<not> flt NaN b" "\<not> flt a NaN"
  by (simp_all add: fle_def flt_def split: option.splits)

lemma fle_total: "a \<noteq> NaN \<Longrightarrow> b \<noteq> NaN \<Longrightarrow> (\<not> fle a b) = flt b a"
  by (cases a; cases b) (auto simp: fle_def flt_def)

lemma flt_total: "a \<noteq> NaN \<Longrightarrow> b \<noteq> NaN \<Longrightarrow> (\<not> flt a b) = fle b a"
  by (cases a; cases b) (auto simp: fle_def flt_def)


subsection \<open>Evaluation of the examples\<close>

lemma int01: "{0..1::int} = {0, 1}"
  by auto

lemmas gradient_defs = gradientRefused_def stopColor_def stopOffset_def nStopsOf_def
  isGradientDescriptor_def pathColor_def lodGate_def lodHeight_def

lemma StartPath_gradient:
  "isGradientDescriptor (pathColor adj s) \<Longrightarrow>
   gradient (StartPath F adj x y s) =
     gradient (snd (initGradient F (pathColor adj s)
        (s\<lparr>flatColor := pathColor adj s, fill := FillGradient\<rparr>)))"
  using gradient_not_premul [of "pathColor adj s"]
  by (simp add: StartPath_def resolvePaint_def Let_def pathColor_def isGradientDescriptor_def)


section \<open>Reset\<close>

text \<open>
  C9. After \<open>Reset m\<close>, whatever the metadata \<open>m\<close> and the state before: the color
  registers are the palette of \<open>m\<close>, every scalar register is \<open>0\<close>, both selectors are
  \<open>0\<close>, the LOD bounds are \<open>0\<close> and \<open>+\<infinity>\<close>, and \<open>firstStartPath\<close> is set.
\<close>

theorem Reset_registers:
  "cReg (Reset F m s) = Palette m \<and> (\<forall>i. nReg (Reset F m s) i = Fin 0)
   \<and> cSel (Reset F m s) = 0 \<and> nSel (Reset F m s) = 0 \<and> lod0 (Reset F m s) = Fin 0
   \<and> lod1 (Reset F m s) = PInf \<and> firstStartPath (Reset F m s)"
  by (simp add: Reset_def recalcTransform_def positiveInfinity_def)


section \<open>Register banks\<close>

lemma SetCReg_cReg:
  "cReg (SetCReg rs adj incr c s) =
     (cReg s)(nat ((uint (cSel s) - uint adj) mod 64) := rs c (Palette (metadata s)) (cReg s))"
  by (simp add: SetCReg_def Let_def slot_index)

lemma SetCReg_cSel:
  "unat (cSel (SetCReg rs adj incr c s)) = (unat (cSel s) + (if incr then 1 else 0)) mod 256"
  by (simp add: SetCReg_def Let_def unat_word_ariths unat_u8_mod256)

lemma SetNReg_nReg:
  "nReg (SetNReg adj incr f s) = (nReg s)(nat ((uint (nSel s) - uint adj) mod 64) := f)"
  by (simp add: SetNReg_def Let_def slot_index)

lemma SetNReg_nSel:
  "unat (nSel (SetNReg adj incr f s)) = (unat (nSel s) + (if incr then 1 else 0)) mod 256"
  by (simp add: SetNReg_def Let_def unat_word_ariths unat_u8_mod256)

text \<open>
  C4, as the claim states it, fails: the increment of a selector is the increment of a
  \<open>uint8\<close>, without a mask. With the selector at 63, a \<open>SetCReg\<close> that increments leaves
  64 in the field, which is neither \<open>(63 + 1) mod 64\<close> nor below 64.
\<close>

theorem selector_not_masked:
  "unat (cSel (SetCReg resolve_id 0 True rgba_zero (SetCSel 63 (rasterizer_zero :: unit Rasterizer))))
     \<noteq> (unat (cSel (SetCSel 63 (rasterizer_zero :: unit Rasterizer))) + 1) mod 64
   \<and> \<not> unat (cSel (SetCReg resolve_id 0 True rgba_zero
          (SetCSel 63 (rasterizer_zero :: unit Rasterizer)))) < 64"
  by (simp add: SetCReg_def SetCSel_def rasterizer_zero_def Let_def)

text \<open>
  C4, amended. \<open>SetCReg adj incr c\<close> writes the slot \<open>(cSel - adj) mod 64\<close> and nothing
  else of the color registers; afterwards the selector is \<open>cSel + 1\<close> (or \<open>cSel\<close>) modulo
  256, which is congruent modulo 64 to that sum; the same holds of \<open>SetNReg\<close> and
  \<open>nSel\<close>. \<open>SetCSel\<close> and \<open>SetNSel\<close> store their argument masked to 6 bits. (Every read
  of a selector masks the index, as \<open>slot_index\<close> says for the writes.)
\<close>

theorem register_write_selectors:
  "cReg (SetCReg rs adj incr c s) =
     (cReg s)(nat ((uint (cSel s) - uint adj) mod 64) := rs c (Palette (metadata s)) (cReg s))
   \<and> unat (cSel (SetCReg rs adj incr c s)) = (unat (cSel s) + (if incr then 1 else 0)) mod 256
   \<and> unat (cSel (SetCReg rs adj incr c s)) mod 64 = (unat (cSel s) + (if incr then 1 else 0)) mod 64
   \<and> nReg (SetNReg adj incr f s) = (nReg s)(nat ((uint (nSel s) - uint adj) mod 64) := f)
   \<and> unat (nSel (SetNReg adj incr f s)) = (unat (nSel s) + (if incr then 1 else 0)) mod 256
   \<and> unat (nSel (SetNReg adj incr f s)) mod 64 = (unat (nSel s) + (if incr then 1 else 0)) mod 64
   \<and> unat (cSel (SetCSel v s)) = unat v mod 64
   \<and> unat (nSel (SetNSel v s)) = unat v mod 64"
  unfolding SetCReg_cReg SetCReg_cSel SetNReg_nReg SetNReg_nSel mod256_mod64
  by (simp add: SetCSel_def SetNSel_def unat_and_0x3f)


section \<open>StartPath: paint and level of detail\<close>

text \<open>
  What \<open>StartPath\<close> does with a register that is neither a color nor a gradient: the
  chain of \<open>resolvePaint\<close> has no branch for it, so the flag \<open>disabled\<close> of the path
  before goes into the LOD gate unchanged.
\<close>

lemma StartPath_malformed:
  "\<not> validAlphaPremulColor (pathColor adj s) \<Longrightarrow> \<not> isGradientDescriptor (pathColor adj s) \<Longrightarrow>
     disabled (StartPath F adj x y s) = (disabled s \<or> \<not> lodGate F s)"
  by (simp add: StartPath_disabled)

text \<open>
  C1, the code at the failing input. On the 64 by 64 destination a first path is
  started with the opaque black of register 0 and drawn; then register 0 is set to a
  malformed color (red 1 above alpha 0, bit 7 of blue clear) and a second path is
  started: it is not disabled, and \<open>ClosePathEndPath\<close> draws it, the uniform paint now
  holding the malformed color. The claim says the second \<open>StartPath\<close> disables the path.
\<close>

theorem malformed_color_path_drawn:
  "\<not> validAlphaPremulColor malformed_color \<and> \<not> isGradientDescriptor malformed_color
   \<and> pathColor 0 (run exactF resolve_id
        [CmdStartPath 0 (Fin 0) (Fin 0), CmdClosePathEndPath,
         CmdSetCReg 0 False malformed_color] example_start) = malformed_color
   \<and> \<not> disabled (run exactF resolve_id
        [CmdStartPath 0 (Fin 0) (Fin 0), CmdClosePathEndPath,
         CmdSetCReg 0 False malformed_color, CmdStartPath 0 (Fin 0) (Fin 0)] example_start)
   \<and> zcalls (zz (run exactF resolve_id
        [CmdStartPath 0 (Fin 0) (Fin 0), CmdClosePathEndPath,
         CmdSetCReg 0 False malformed_color, CmdStartPath 0 (Fin 0) (Fin 0),
         CmdClosePathEndPath] example_start)) =
      [ZReset 64 64, ZSetDrawOp Over, ZMoveTo (Fin 32, Fin 32), ZClosePath,
       ZDraw () rect64 (PaintUniform opaque_black) (0, 0),
       ZReset 64 64, ZMoveTo (Fin 32, Fin 32), ZClosePath,
       ZDraw () rect64 (PaintUniform malformed_color) (0, 0)]"
  by (simp add: example_defs path_defs call_defs pathColor_def isGradientDescriptor_def)

text \<open>
  The height is the difference of two \<open>int\<close>s and wraps as they do: a rectangle from
  \<open>y = -1\<close> to the greatest \<open>int\<close> has the height \<open>-2^63\<close>, which the default LOD gate
  refuses.
\<close>

lemma height_wraps:
  "\<not> Empty \<lparr>rMin = (0, - 1), rMax = (1, 0x7FFFFFFFFFFFFFFF)\<rparr>
   \<and> sint (Dy \<lparr>rMin = (0, - 1), rMax = (1, 0x7FFFFFFFFFFFFFFF)\<rparr>) = - (2 ^ 63)"
  by (simp add: Empty_def Dy_def)

text \<open>
  C7, as the claim states it, fails in its second form: with the lower bound a NaN
  (and the paint opaque black), \<open>StartPath\<close> disables the path, but neither \<open>h < lod0\<close>
  nor \<open>h \<ge> lod1\<close> holds, a comparison with a NaN being false.
\<close>

theorem lod_nan_disables:
  "paintUsable example_lod_nan (pathColor 0 example_lod_nan)
   \<and> disabled (StartPath exactF 0 (Fin 0) (Fin 0) example_lod_nan)
   \<and> \<not> (flt (lodHeight exactF example_lod_nan) (lod0 example_lod_nan)
         \<or> fle (lod1 example_lod_nan) (lodHeight exactF example_lod_nan))"
  by (simp add: StartPath_disabled lodGate_def lodHeight_def paintUsable_def pathColor_def
      example_defs path_defs)

text \<open>
  C7, amended. When the resolved paint is valid and not transparent, the path is
  enabled after \<open>StartPath\<close> exactly when \<open>lod0 \<le> h\<close> and \<open>h < lod1\<close>, the comparisons
  being those of \<open>float32\<close>; so a bound that is a NaN disables the path, and when
  neither bound is a NaN the path is disabled exactly when \<open>h < lod0\<close> or \<open>h \<ge> lod1\<close>.
  Here \<open>h\<close> is the height of the destination rectangle, the \<open>int\<close> difference of its
  two \<open>y\<close> coordinates, converted to \<open>float32\<close>: the width is not read.
\<close>

theorem lod_gate:
  assumes "paintUsable s (pathColor adj s)"
  shows "(\<not> disabled (StartPath F adj x y s)) =
           (fle (lod0 s) (lodHeight F s) \<and> flt (lodHeight F s) (lod1 s))
     \<and> (if lod0 s = NaN \<or> lod1 s = NaN then disabled (StartPath F adj x y s)
         else disabled (StartPath F adj x y s) =
           (flt (lodHeight F s) (lod0 s) \<or> fle (lod1 s) (lodHeight F s)))
     \<and> lodHeight F s = Fin (int_to32 F (sint (snd (rMax (rect s)) - snd (rMin (rect s)))))"
proof -
  have d: "disabled (StartPath F adj x y s) = (\<not> lodGate F s)"
    using assms by (auto simp: StartPath_disabled paintUsable_def split: if_splits)
  have h: "lodHeight F s \<noteq> NaN"
    by (simp add: lodHeight_def)
  have nan: "lod0 s = NaN \<or> lod1 s = NaN \<Longrightarrow> \<not> lodGate F s"
    by (auto simp: lodGate_def fcmp_NaN)
  have tot: "lod0 s \<noteq> NaN \<Longrightarrow> lod1 s \<noteq> NaN \<Longrightarrow>
      (\<not> lodGate F s) = (flt (lodHeight F s) (lod0 s) \<or> fle (lod1 s) (lodHeight F s))"
    using h by (simp add: lodGate_def fle_total flt_total)
  show ?thesis
    using nan tot by (auto simp: d lodGate_def lodHeight_def Dy_def)
qed

theorem lod_gate_witness:
  "paintUsable example_lod_skip (pathColor 0 example_lod_skip)
   \<and> disabled (StartPath exactF 0 (Fin 0) (Fin 0) example_lod_skip)
   \<and> lodHeight exactF example_lod_skip = Fin 64
   \<and> paintUsable example_start (pathColor 0 example_start)
   \<and> \<not> disabled (StartPath exactF 0 (Fin 0) (Fin 0) example_start)"
proof -
  have a: "paintUsable example_lod_skip (pathColor 0 example_lod_skip)"
    by (simp add: paintUsable_def pathColor_def example_defs path_defs)
  have b: "paintUsable example_start (pathColor 0 example_start)"
    by (simp add: paintUsable_def pathColor_def example_defs path_defs)
  show ?thesis
    using lod_gate [OF a, of exactF "Fin 0" "Fin 0"] lod_gate [OF b, of exactF "Fin 0" "Fin 0"] a b
    by (simp add: lodHeight_def example_defs path_defs)
qed


section \<open>Gradients\<close>

text \<open>
  C6. When the register read by \<open>StartPath\<close> is a gradient descriptor, \<open>initGradient\<close>
  fails exactly when some stop color is not valid premultiplied, or some stop offset
  is outside \<open>[0, 1]\<close>, or some offset is not greater than the one before it (\<open>-\<infinity>\<close>
  before the first). When it fails, the path is disabled; when it succeeds, the
  resolution of the paint leaves the path enabled, with the gradient as paint. (What
  \<open>StartPath\<close> does next is the LOD gate, which is the same for every paint: the third
  conjunct gives the flag after it.)
\<close>

theorem gradient_paint:
  assumes "isGradientDescriptor (pathColor adj s)"
  shows "fst (initGradient F (pathColor adj s) s) = (\<not> gradientRefused s (pathColor adj s))
     \<and> disabled (resolvePaint F adj s) = gradientRefused s (pathColor adj s)
     \<and> disabled (StartPath F adj x y s) = (gradientRefused s (pathColor adj s) \<or> \<not> lodGate F s)
     \<and> fill (StartPath F adj x y s) = FillGradient"
  using assms gradient_not_premul [OF assms]
  by (simp add: initGradient_fst resolvePaint_disabled StartPath_disabled StartPath_fill)

theorem gradient_paint_witness:
  "isGradientDescriptor (pathColor 0 example_two_stops)
   \<and> \<not> gradientRefused example_two_stops (pathColor 0 example_two_stops)
   \<and> \<not> disabled (StartPath exactF 0 (Fin 0) (Fin 0) example_two_stops)
   \<and> fill (StartPath exactF 0 (Fin 0) (Fin 0) example_two_stops) = FillGradient
   \<and> isGradientDescriptor (pathColor 0 example_equal_stops)
   \<and> gradientRefused example_equal_stops (pathColor 0 example_equal_stops)
   \<and> disabled (StartPath exactF 0 (Fin 0) (Fin 0) example_equal_stops)"
proof -
  have a: "isGradientDescriptor (pathColor 0 example_two_stops)"
    by (simp add: gradient_defs example_defs path_defs)
  have b: "isGradientDescriptor (pathColor 0 example_equal_stops)"
    by (simp add: gradient_defs example_defs path_defs)
  have c: "\<not> gradientRefused example_two_stops (pathColor 0 example_two_stops)"
    by (simp add: gradient_defs int01 example_defs path_defs)
  have d: "gradientRefused example_equal_stops (pathColor 0 example_equal_stops)"
    by (simp add: gradient_defs int01 example_defs path_defs)
  have e: "lodGate exactF example_two_stops"
    by (simp add: gradient_defs example_defs path_defs)
  show ?thesis
    using gradient_paint [OF a, of exactF "Fin 0" "Fin 0"]
      gradient_paint [OF b, of exactF "Fin 0" "Fin 0"] a b c d e
    by simp
qed

text \<open>
  C10. For a gradient descriptor that declares no stop: the loop over the stops does
  nothing and succeeds, \<open>initGradient\<close> succeeds, the gradient is initialised (linear
  or circular, as bit 6 of blue says) with the empty list of stops, the gradient is
  the paint, and the path is not disabled as an invalid gradient: the resolution of
  the paint leaves it enabled. (After the LOD gate that follows, which is the same for
  every paint, the path is enabled exactly when the gate lets it pass.)
\<close>

theorem no_stops_gradient:
  assumes "isGradientDescriptor (pathColor adj s)"
    and "nStopsOf (pathColor adj s) = 0"
  shows "initGradient_loop (cReg s) (nReg s) cB nB (nStopsOf (pathColor adj s)) 0 negativeInfinity st
           = (True, st)
     \<and> fst (initGradient F (pathColor adj s) s)
     \<and> gradient (StartPath F adj x y s) =
         (if drop_bit 6 (rgbaB (pathColor adj s)) AND 0x01 = 0 then
            InitLinear
              (absX F s (nReg s (nat ((uint (rgbaB (pathColor adj s) AND 0x3f) - 4) mod 64))))
              (absY F s (nReg s (nat ((uint (rgbaB (pathColor adj s) AND 0x3f) - 3) mod 64))))
              (absX F s (nReg s (nat ((uint (rgbaB (pathColor adj s) AND 0x3f) - 2) mod 64))))
              (absY F s (nReg s (nat ((uint (rgbaB (pathColor adj s) AND 0x3f) - 1) mod 64))))
              (drop_bit 6 (rgbaG (pathColor adj s))) []
          else
            InitCircular
              (absX F s (nReg s (nat ((uint (rgbaB (pathColor adj s) AND 0x3f) - 4) mod 64))))
              (absY F s (nReg s (nat ((uint (rgbaB (pathColor adj s) AND 0x3f) - 3) mod 64))))
              (relX F s (nReg s (nat ((uint (rgbaB (pathColor adj s) AND 0x3f) - 1) mod 64))))
              (drop_bit 6 (rgbaG (pathColor adj s))) [])
     \<and> fill (StartPath F adj x y s) = FillGradient
     \<and> \<not> disabled (resolvePaint F adj s)
     \<and> disabled (StartPath F adj x y s) = (\<not> lodGate F s)"
proof -
  have n: "uint (rgbaR (pathColor adj s) AND 0x3f) = 0"
    using assms(2) by (simp add: nStopsOf_def)
  have r: "\<not> gradientRefused s (pathColor adj s)"
    using assms(2) by (simp add: gradientRefused_def)
  have l: "initGradient_loop cr nr cB' nB' 0 0 p st' = (True, st')" for cr nr cB' nB' p st'
    by (subst loop_unfold) simp
  have g: "gradient (snd (initGradient F (pathColor adj s)
        (s\<lparr>flatColor := pathColor adj s, fill := FillGradient\<rparr>))) =
         (if drop_bit 6 (rgbaB (pathColor adj s)) AND 0x01 = 0 then
            InitLinear
              (absX F s (nReg s (nat ((uint (rgbaB (pathColor adj s) AND 0x3f) - 4) mod 64))))
              (absY F s (nReg s (nat ((uint (rgbaB (pathColor adj s) AND 0x3f) - 3) mod 64))))
              (absX F s (nReg s (nat ((uint (rgbaB (pathColor adj s) AND 0x3f) - 2) mod 64))))
              (absY F s (nReg s (nat ((uint (rgbaB (pathColor adj s) AND 0x3f) - 1) mod 64))))
              (drop_bit 6 (rgbaG (pathColor adj s))) []
          else
            InitCircular
              (absX F s (nReg s (nat ((uint (rgbaB (pathColor adj s) AND 0x3f) - 4) mod 64))))
              (absY F s (nReg s (nat ((uint (rgbaB (pathColor adj s) AND 0x3f) - 3) mod 64))))
              (relX F s (nReg s (nat ((uint (rgbaB (pathColor adj s) AND 0x3f) - 1) mod 64))))
              (drop_bit 6 (rgbaG (pathColor adj s))) [])"
    by (simp add: initGradient_def Let_def n l int_and_0x3f absX_def absY_def relX_def)
  show ?thesis
    using assms(1) gradient_not_premul [OF assms(1)] r
    by (simp add: assms(2) l initGradient_fst StartPath_gradient g StartPath_fill
        StartPath_disabled resolvePaint_disabled)
qed

theorem no_stops_gradient_witness:
  "isGradientDescriptor (pathColor 0 example_no_stops)
   \<and> nStopsOf (pathColor 0 example_no_stops) = 0
   \<and> gradient (StartPath exactF 0 (Fin 0) (Fin 0) example_no_stops) =
       InitLinear (Fin 32) (Fin 32) (Fin 32) (Fin 32) 0 []
   \<and> \<not> disabled (StartPath exactF 0 (Fin 0) (Fin 0) example_no_stops)"
proof -
  have a: "isGradientDescriptor (pathColor 0 example_no_stops)"
    by (simp add: gradient_defs example_defs path_defs)
  have b: "nStopsOf (pathColor 0 example_no_stops) = 0"
    by (simp add: gradient_defs example_defs path_defs)
  have c: "lodGate exactF example_no_stops"
    by (simp add: gradient_defs example_defs path_defs)
  have d: "pathColor 0 example_no_stops = empty_gradient"
    by (simp add: gradient_defs example_defs path_defs)
  show ?thesis
    using no_stops_gradient [OF a b, of _ _ _ exactF "Fin 0" "Fin 0"] a b c
    apply (simp add: d)
    apply (simp add: example_defs path_defs)
    done
qed



section \<open>ClosePathEndPath and the destination\<close>

text \<open>
  C2, as the claim states it, fails for the empty rectangle: with a destination image
  bound to an empty rectangle (which \<open>SetDstImage\<close> replaces by the zero rectangle), a
  path of opaque black is enabled, the height 0 passing the default LOD gate, and
  \<open>ClosePathEndPath\<close> calls \<open>Draw\<close>, with the zero rectangle.
\<close>

theorem empty_rect_draw_called:
  "Empty (rect example_empty_dst) \<and> dst example_empty_dst = Some ()
   \<and> \<not> disabled (StartPath exactF 0 (Fin 0) (Fin 0) example_empty_dst)
   \<and> newCalls (StartPath exactF 0 (Fin 0) (Fin 0) example_empty_dst)
        (ClosePathEndPath (StartPath exactF 0 (Fin 0) (Fin 0) example_empty_dst)) =
      [ZClosePath, ZDraw () rect_zero (PaintUniform opaque_black) (0, 0)]"
  by (simp add: example_defs path_defs call_defs newCalls_def)

lemma StartPath_ignores_dst:
  "disabled (StartPath F adj x y (s\<lparr>dst := d\<rparr>)) = disabled (StartPath F adj x y s)"
  by (simp add: StartPath_disabled gradient_defs)

text \<open>
  C2, amended. \<open>ClosePathEndPath\<close> calls nothing on a disabled path; on an enabled
  path it closes the subpath and then calls \<open>Draw\<close> exactly when a destination image is
  bound, with the rectangle the rasterizer holds, which is the zero rectangle when
  \<open>SetDstImage\<close> was given an empty one. So without a destination image no \<open>Draw\<close> is
  ever called and no raster is touched; \<open>StartPath\<close> does not read the binding.
\<close>

theorem ClosePathEndPath_calls:
  "zcalls (zz (ClosePathEndPath s)) =
     zcalls (zz s) @ (if disabled s then []
                      else ZClosePath # (case dst s of None \<Rightarrow> []
                                          | Some d \<Rightarrow> [ZDraw d (rect s) (paintOf s) (0, 0)]))
   \<and> filter isDraw (newCalls s (ClosePathEndPath s)) =
       (case dst s of None \<Rightarrow> []
        | Some d \<Rightarrow> if disabled s then [] else [ZDraw d (rect s) (paintOf s) (0, 0)])
   \<and> dst (ClosePathEndPath s) = dst s
   \<and> dst (SetDstImage F d q dop s) = d
   \<and> rect (SetDstImage F d q dop s) = (if Empty q then rect_zero else q)
   \<and> disabled (StartPath F adj x y (s\<lparr>dst := d\<rparr>)) = disabled (StartPath F adj x y s)"
  unfolding StartPath_ignores_dst
  by (simp add: ClosePathEndPath_def SetDstImage_def recalcTransform_def Let_def call_defs
      newCalls_def paintOf_def split: option.splits fillRef.splits)

theorem ClosePathEndPath_calls_witness:
  "dst (Reset exactF example_metadata (rasterizer_zero :: unit Rasterizer)) = None
   \<and> \<not> disabled (StartPath exactF 0 (Fin 0) (Fin 0)
          (Reset exactF example_metadata (rasterizer_zero :: unit Rasterizer)))
   \<and> newCalls (StartPath exactF 0 (Fin 0) (Fin 0)
          (Reset exactF example_metadata (rasterizer_zero :: unit Rasterizer)))
        (ClosePathEndPath (StartPath exactF 0 (Fin 0) (Fin 0)
          (Reset exactF example_metadata (rasterizer_zero :: unit Rasterizer)))) = [ZClosePath]"
  using ClosePathEndPath_calls [of "StartPath exactF 0 (Fin 0) (Fin 0)
          (Reset exactF example_metadata (rasterizer_zero :: unit Rasterizer))"]
  by (simp add: newCalls_def) (simp add: example_defs path_defs call_defs)


section \<open>Smooth curves\<close>

text \<open>
  What the four smooth commands pass as the implicit control point, on an enabled
  path. The quadratic ones assign \<open>prevSmoothType\<close> before they call
  \<open>implicitSmoothPoint\<close>, whose test of the previous kind then always finds the kind
  equal: they reflect whatever the previous command was. The cubic ones call it first.
\<close>

lemma smooth_quad_reflects_always:
  "\<not> disabled s \<Longrightarrow>
     newCalls s (AbsSmoothQuadTo F x y s) =
       [ZQuadTo (sub32 F (mul32 F (Fin 2) (fst (zpen (zz s)))) (fst (prevSmoothPoint s)),
                 sub32 F (mul32 F (Fin 2) (snd (zpen (zz s)))) (snd (prevSmoothPoint s)))
                (absVec2 F s x y)]
   \<and> newCalls s (RelSmoothQuadTo F x y s) =
       [ZQuadTo (sub32 F (mul32 F (Fin 2) (fst (zpen (zz s)))) (fst (prevSmoothPoint s)),
                 sub32 F (mul32 F (Fin 2) (snd (zpen (zz s)))) (snd (prevSmoothPoint s)))
                (relVec2 F s x y)]"
  by (simp add: AbsSmoothQuadTo_def RelSmoothQuadTo_def implicitSmoothPoint_def Let_def
      newCalls_def call_defs absVec2_def absX_def absY_def relVec2_def relX_def relY_def)

lemma smooth_cube_control:
  "\<not> disabled s \<Longrightarrow>
     newCalls s (AbsSmoothCubeTo F x2 y2 x y s) =
       [ZCubeTo (implicitSmoothPoint F s smoothTypeCube) (absVec2 F s x2 y2) (absVec2 F s x y)]
   \<and> newCalls s (RelSmoothCubeTo F x2 y2 x y s) =
       [ZCubeTo (implicitSmoothPoint F s smoothTypeCube) (relVec2 F s x2 y2) (relVec2 F s x y)]"
  by (simp add: AbsSmoothCubeTo_def RelSmoothCubeTo_def Let_def
      newCalls_def call_defs absVec2_def absX_def absY_def relVec2_def relX_def relY_def)

lemma quad_then_smooth_quad:
  "\<not> disabled s \<Longrightarrow>
     newCalls (AbsQuadTo F x1 y1 x y s) (AbsSmoothQuadTo F x' y' (AbsQuadTo F x1 y1 x y s)) =
       [ZQuadTo (sub32 F (mul32 F (Fin 2) (absX F s x)) (absX F s x1),
                 sub32 F (mul32 F (Fin 2) (absY F s y)) (absY F s y1))
                (absVec2 F s x' y')]"
  by (simp add: AbsSmoothQuadTo_def AbsQuadTo_def implicitSmoothPoint_def Let_def
      newCalls_def call_defs absVec2_def absX_def absY_def)

text \<open>
  C5, the code at the failing input. Right after \<open>StartPath(0, 0, 0)\<close> on the 64 by
  64 destination the previous kind is \<open>None\<close> and the pen is at \<open>(32, 32)\<close>:
  \<open>AbsSmoothQuadTo(10, 10)\<close> passes the control point \<open>(64, 64)\<close>, the reflection of the
  stale \<open>prevSmoothPoint = (0, 0)\<close>, where the claim says the pen; \<open>AbsSmoothCubeTo\<close>
  in the same state passes the pen. After a cubic curve with second control point
  \<open>(52, 22)\<close> and end point \<open>(52, 32)\<close> in pixels, \<open>AbsSmoothQuadTo\<close> passes
  \<open>(52, 42)\<close>, where the claim says the pen \<open>(52, 32)\<close>.
\<close>

theorem smooth_quad_after_line_reflects:
  "prevSmoothType (StartPath exactF 0 (Fin 0) (Fin 0) example_start) = smoothTypeNone
   \<and> zpen (zz (StartPath exactF 0 (Fin 0) (Fin 0) example_start)) = (Fin 32, Fin 32)
   \<and> newCalls (StartPath exactF 0 (Fin 0) (Fin 0) example_start)
        (AbsSmoothQuadTo exactF (Fin 10) (Fin 10) (StartPath exactF 0 (Fin 0) (Fin 0) example_start))
      = [ZQuadTo (Fin 64, Fin 64) (Fin 42, Fin 42)]
   \<and> newCalls (StartPath exactF 0 (Fin 0) (Fin 0) example_start)
        (AbsSmoothCubeTo exactF (Fin 10) (Fin 10) (Fin 10) (Fin 10)
           (StartPath exactF 0 (Fin 0) (Fin 0) example_start))
      = [ZCubeTo (Fin 32, Fin 32) (Fin 42, Fin 42) (Fin 42, Fin 42)]
   \<and> zcalls (zz (run exactF resolve_id
        [CmdStartPath 0 (Fin 0) (Fin 0),
         CmdAbsCubeTo (Fin 10) (Fin (- 10)) (Fin 20) (Fin (- 10)) (Fin 20) (Fin 0),
         CmdAbsSmoothQuadTo (Fin 30) (Fin 0)] example_start))
      = [ZReset 64 64, ZSetDrawOp Over, ZMoveTo (Fin 32, Fin 32),
         ZCubeTo (Fin 42, Fin 22) (Fin 52, Fin 22) (Fin 52, Fin 32),
         ZQuadTo (Fin 52, Fin 42) (Fin 62, Fin 32)]"
  by (simp add: example_defs path_defs call_defs newCalls_def AbsSmoothQuadTo_def
      AbsSmoothCubeTo_def AbsCubeTo_def)



section \<open>Arcs\<close>

text \<open>
  The loop of \<open>AbsArcTo\<close> calls \<open>CubeTo\<close> and nothing else, and changes nothing of the
  rasterizer but the coverage rasterizer.
\<close>

lemma arcSegmentTo_shape:
  "\<exists>c1 c2 p. arcSegmentTo F cx cy t1 t2 rx ry cp sp s = s\<lparr>zz := zCubeTo c1 c2 p (zz s)\<rparr>"
  unfolding arcSegmentTo_def Let_def by blast

lemma fold_cubes:
  assumes "\<And>i s. \<exists>c1 c2 p. g i s = s\<lparr>zz := zCubeTo c1 c2 p (zz s)\<rparr>"
  shows "\<exists>cs p. fold g xs s = s\<lparr>zz := (zz s)\<lparr>zpen := p, zcalls := zcalls (zz s) @ cs\<rparr>\<rparr>
           \<and> list_all isCubeTo cs"
proof (induction xs arbitrary: s)
  case Nil
  show ?case
    by (intro exI [of _ "[]"] exI [of _ "zpen (zz s)"]) simp
next
  case (Cons i xs)
  obtain c1 c2 p where g: "g i s = s\<lparr>zz := zCubeTo c1 c2 p (zz s)\<rparr>"
    using assms by blast
  obtain cs q where f: "fold g xs (g i s) =
      (g i s)\<lparr>zz := (zz (g i s))\<lparr>zpen := q, zcalls := zcalls (zz (g i s)) @ cs\<rparr>\<rparr>"
    and c: "list_all isCubeTo cs"
    using Cons.IH by blast
  have "fold g (i # xs) s =
      s\<lparr>zz := (zz s)\<lparr>zpen := q, zcalls := zcalls (zz s) @ (ZCubeTo c1 c2 p # cs)\<rparr>\<rparr>"
    by (simp add: f) (simp add: g zCubeTo_def)
  then show ?case
    using c by (intro exI [of _ "ZCubeTo c1 c2 p # cs"] exI [of _ q]) simp
qed

lemma arcSegments_shape:
  "\<exists>cs p. arcSegments F cx cy th dth n rx ry cp sp s =
             s\<lparr>zz := (zz s)\<lparr>zpen := p, zcalls := zcalls (zz s) @ cs\<rparr>\<rparr>
        \<and> list_all isCubeTo cs"
  unfolding arcSegments_def by (rule fold_cubes) (rule arcSegmentTo_shape)

lemma AbsArcTo_arc:
  "\<not> disabled s \<Longrightarrow> flt (Fin 0) (fabs rx) \<Longrightarrow> flt (Fin 0) (fabs ry) \<Longrightarrow>
   \<exists>cs p. AbsArcTo F rx ry rot la sw x y s =
        s\<lparr>prevSmoothType := smoothTypeNone,
          zz := (zz s)\<lparr>zpen := p, zcalls := zcalls (zz s) @ cs\<rparr>\<rparr>
      \<and> list_all isCubeTo cs"
proof -
  assume a: "\<not> disabled s" "flt (Fin 0) (fabs rx)" "flt (Fin 0) (fabs ry)"
  let ?s1 = "s\<lparr>prevSmoothType := smoothTypeNone\<rparr>"
  obtain cx cy th dth n rx' ry' cp sp where
    p: "arcParams F (fabs rx) (fabs ry) rot la sw x y ?s1 = (cx, cy, th, dth, n, rx', ry', cp, sp)"
    by (metis prod_cases3)
  obtain cs q where
    "arcSegments F cx cy th dth n rx' ry' cp sp ?s1 =
       ?s1\<lparr>zz := (zz ?s1)\<lparr>zpen := q, zcalls := zcalls (zz ?s1) @ cs\<rparr>\<rparr>"
    and c: "list_all isCubeTo cs"
    using arcSegments_shape by blast
  then have "AbsArcTo F rx ry rot la sw x y s =
      s\<lparr>prevSmoothType := smoothTypeNone, zz := (zz s)\<lparr>zpen := q, zcalls := zcalls (zz s) @ cs\<rparr>\<rparr>"
    using a by (simp add: AbsArcTo_def Let_def p)
  with c show ?thesis by blast
qed

lemma AbsArcTo_line:
  "\<not> disabled s \<Longrightarrow> \<not> (flt (Fin 0) (fabs rx) \<and> flt (Fin 0) (fabs ry)) \<Longrightarrow>
   AbsArcTo F rx ry rot la sw x y s =
        s\<lparr>prevSmoothType := smoothTypeNone,
          zz := (zz s)\<lparr>zpen := (x, y), zcalls := zcalls (zz s) @ [ZLineTo (x, y)]\<rparr>\<rparr>"
  by (simp add: AbsArcTo_def Let_def zLineTo_def)

lemma AbsArcTo_disabled: "disabled s \<Longrightarrow> AbsArcTo F rx ry rot la sw x y s = s"
  by (simp add: AbsArcTo_def)





section \<open>Latching the compositing operator\<close>

text \<open>
  What one command does to the latch: only a \<open>StartPath\<close> that finds \<open>firstStartPath\<close>
  set and leaves its path enabled assigns \<open>DrawOp\<close>, with the operator the rasterizer
  holds, and clears \<open>firstStartPath\<close>; only \<open>Reset\<close> sets it again.
\<close>

lemma resolvePaint_transform:
  "scaleX (resolvePaint F adj s) = scaleX s \<and> biasX (resolvePaint F adj s) = biasX s
   \<and> scaleY (resolvePaint F adj s) = scaleY s \<and> biasY (resolvePaint F adj s) = biasY s"
  by (simp add: resolvePaint_def Let_def initGradient_def)

lemma StartPath_calls:
  "newCalls s (StartPath F adj x y s) =
     (if disabled (StartPath F adj x y s) then []
      else ZReset (Dx (rect s)) (Dy (rect s))
             # (if firstStartPath s then [ZSetDrawOp (drawOp s)] else [])
             @ [ZMoveTo (absVec2 F s x y)])
   \<and> firstStartPath (StartPath F adj x y s) =
       (if disabled (StartPath F adj x y s) then firstStartPath s else False)"
  by (simp add: StartPath_def Let_def resolvePaint_frame resolvePaint_transform newCalls_def
      call_defs absVec2_def absX_def absY_def)

lemma cubes_no_latch: "list_all isCubeTo cs \<Longrightarrow> filter isSetDrawOp cs = []"
proof (induction cs)
  case Nil
  then show ?case by simp
next
  case (Cons c cs)
  then show ?case by (cases c) simp_all
qed

lemma AbsArcTo_latch:
  "filter isSetDrawOp (newCalls s (AbsArcTo F rx ry rot la sw x y s)) = []
   \<and> firstStartPath (AbsArcTo F rx ry rot la sw x y s) = firstStartPath s
   \<and> disabled (AbsArcTo F rx ry rot la sw x y s) = disabled s"
proof (cases "disabled s")
  case True
  then show ?thesis by (simp add: AbsArcTo_def newCalls_def)
next
  case en: False
  show ?thesis
  proof (cases "flt (Fin 0) (fabs rx) \<and> flt (Fin 0) (fabs ry)")
    case True
    then obtain cs p where
      "AbsArcTo F rx ry rot la sw x y s =
        s\<lparr>prevSmoothType := smoothTypeNone,
          zz := (zz s)\<lparr>zpen := p, zcalls := zcalls (zz s) @ cs\<rparr>\<rparr>"
      and "list_all isCubeTo cs"
      using AbsArcTo_arc [OF en] by blast
    then show ?thesis
      by (simp add: newCalls_def cubes_no_latch)
  next
    case False
    show ?thesis
      by (simp add: AbsArcTo_line [OF en False] newCalls_def)
  qed
qed

lemmas cmd_defs = ClosePathAbsMoveTo_def ClosePathRelMoveTo_def AbsHLineTo_def RelHLineTo_def
  AbsVLineTo_def RelVLineTo_def AbsLineTo_def RelLineTo_def AbsSmoothQuadTo_def
  RelSmoothQuadTo_def AbsQuadTo_def RelQuadTo_def AbsSmoothCubeTo_def RelSmoothCubeTo_def
  AbsCubeTo_def RelCubeTo_def ClosePathEndPath_def SetDstImage_def Reset_def recalcTransform_def
  SetCSel_def SetNSel_def SetCReg_def SetNReg_def SetLOD_def

lemma exec_latch:
  "filter isSetDrawOp (newCalls s (exec F rs c s)) =
     (if isStartPath c \<and> firstStartPath s \<and> \<not> disabled (exec F rs c s)
      then [ZSetDrawOp (drawOp s)] else [])
   \<and> firstStartPath (exec F rs c s) =
       (if isReset c then True
        else if isStartPath c \<and> \<not> disabled (exec F rs c s) then False
        else firstStartPath s)"
proof (cases c)
  case (CmdStartPath adj x y)
  then show ?thesis by (simp add: StartPath_calls)
next
  case (CmdAbsArcTo rx ry rot la sw x y)
  then show ?thesis by (simp add: AbsArcTo_latch)
next
  case (CmdRelArcTo rx ry rot la sw x y)
  then show ?thesis by (simp add: RelArcTo_def Let_def AbsArcTo_latch)
qed (simp_all add: cmd_defs Let_def newCalls_def call_defs split: option.splits)

lemma latch_steps_general:
  "\<forall>c \<in> set cs. \<not> isReset c \<Longrightarrow>
     latchSteps F rs k cs s = (if firstStartPath s then take 1 (enabledStarts F rs k cs s) else [])"
proof (induction cs arbitrary: k s)
  case Nil
  then show ?case by simp
next
  case (Cons c cs)
  then have nr: "\<not> isReset c" and rest: "\<forall>c \<in> set cs. \<not> isReset c"
    by simp_all
  show ?case
    using exec_latch [of s F rs c] nr
    by (simp add: Cons.IH [OF rest])
qed

text \<open>
  C3, as the claim states it, fails: after a \<open>Reset\<close>, a first \<open>StartPath\<close> that the LOD
  gate disables latches nothing, and the operator is latched by the second
  \<open>StartPath\<close> (the command at position 4); a cycle whose only \<open>StartPath\<close> is disabled
  latches nothing at all.
\<close>

theorem latch_not_in_first_StartPath:
  "latchSteps exactF resolve_id 0
     [CmdSetLOD (Fin 100) (Fin 200), CmdStartPath 0 (Fin 0) (Fin 0), CmdClosePathEndPath,
      CmdSetLOD (Fin 0) PInf, CmdStartPath 0 (Fin 0) (Fin 0), CmdClosePathEndPath]
     (Reset exactF example_metadata (SetDstImage exactF (Some ()) rect64 Over rasterizer_zero))
     = [(4, ZSetDrawOp Over)]
   \<and> latchSteps exactF resolve_id 0
     [CmdSetLOD (Fin 100) (Fin 200), CmdStartPath 0 (Fin 0) (Fin 0), CmdClosePathEndPath]
     (Reset exactF example_metadata (SetDstImage exactF (Some ()) rect64 Over rasterizer_zero))
     = []"
  by (simp add: example_defs path_defs call_defs newCalls_def)

text \<open>
  Where every \<open>StartPath\<close> reads a color or a gradient descriptor, the \<open>StartPath\<close>
  commands that leave \<open>disabled\<close> clear are the usable ones.
\<close>

lemma start_usable_enabled:
  "startWellFormed c s \<Longrightarrow> (isStartPath c \<and> \<not> disabled (exec F rs c s)) = startUsable F c s"
  by (cases c) (auto simp: StartPath_disabled paintUsable_def)

lemma usable_enabled_starts:
  "wellFormedStarts F rs cs s \<Longrightarrow> enabledStarts F rs k cs s = usableStarts F rs k cs s"
proof (induction cs arbitrary: k s)
  case Nil
  then show ?case by simp
next
  case (Cons c cs)
  then have w: "startWellFormed c s" and rest: "wellFormedStarts F rs cs (exec F rs c s)"
    by simp_all
  show ?case
    using start_usable_enabled [OF w, of F rs]
    by (simp add: Cons.IH [OF rest])
qed

text \<open>
  C3, amended. In every run that starts with a \<open>Reset\<close> and goes on with commands
  other than \<open>Reset\<close>, none of them a \<open>StartPath\<close> on a register that is neither a color
  nor a gradient descriptor, the compositing operator is latched into the coverage
  rasterizer at most once: during the first \<open>StartPath\<close> of the run whose paint is valid
  and not transparent and whose height passes the LOD gate, with the operator that
  \<open>SetDstImage\<close> chose last before it; and not at all when the run has no such
  \<open>StartPath\<close>. (What a \<open>StartPath\<close> on a malformed register does is left out.)
\<close>

theorem latch_once_per_cycle:
  assumes "\<forall>c \<in> set cs. \<not> isReset c"
    and "wellFormedStarts F rs cs (Reset F m s)"
  shows "latchSteps F rs 0 cs (Reset F m s) = take 1 (usableStarts F rs 0 cs (Reset F m s))"
proof -
  have f: "firstStartPath (Reset F m s)"
    by (simp add: Reset_def recalcTransform_def)
  show ?thesis
    using latch_steps_general [OF assms(1), of F rs 0 "Reset F m s"]
      usable_enabled_starts [OF assms(2), of 0] f
    by simp
qed

theorem latch_once_per_cycle_witness:
  "list_all (\<lambda>c. \<not> isReset c) example_latch_run
   \<and> wellFormedStarts exactF resolve_id example_latch_run example_start
   \<and> latchSteps exactF resolve_id 0 example_latch_run example_start = [(3, ZSetDrawOp Over)]
   \<and> usableStarts exactF resolve_id 0 example_latch_run example_start
      = [(3, ZSetDrawOp Over), (5, ZSetDrawOp Over)]"
proof -
  have n: "\<forall>c \<in> set example_latch_run. \<not> isReset c"
    by (simp add: example_latch_run_def)
  have l: "list_all (\<lambda>c. \<not> isReset c) example_latch_run"
    by (simp add: example_latch_run_def)
  have w: "wellFormedStarts exactF resolve_id example_latch_run example_start"
    by (simp add: example_latch_run_def gradient_defs example_defs path_defs call_defs)
  have u: "usableStarts exactF resolve_id 0 example_latch_run example_start
      = [(3, ZSetDrawOp Over), (5, ZSetDrawOp Over)]"
    by (simp add: example_latch_run_def paintUsable_def gradient_defs example_defs path_defs
        call_defs)
  have k: "take 1 [(3::nat, ZSetDrawOp Over :: unit zcall), (5, ZSetDrawOp Over)] =
      [(3, ZSetDrawOp Over)]"
    by simp
  have t: "latchSteps exactF resolve_id 0 example_latch_run example_start
      = [(3, ZSetDrawOp Over)]"
    using latch_once_per_cycle [where cs = example_latch_run and F = exactF
        and rs = resolve_id and m = example_metadata
        and s = "SetDstImage exactF (Some ()) rect64 Over rasterizer_zero",
        folded example_start_def, OF n w]
    unfolding u k .
  show ?thesis
    by (rule conjI [OF l conjI [OF w conjI [OF t u]]])
qed

end
